theory Spec2Isabelle
  imports Main
begin

section \<open>Data model of Maxon.cpp\<close>

text \<open>
  The headers that declare the enumerations and the classes Reading, Command, Controlword
  and Configuration are not among the sources; Maxon.cpp is. Every enumeration below has the
  enumerators that Maxon.cpp names, and one last constructor that stands for any enumerator
  Maxon.cpp does not name: it is the value that reaches the \<^verbatim>\<open>default:\<close> branches.
  Member names drop the trailing underscore of the source.
\<close>

datatype DriveState =
    SwitchOnDisabled
  | ReadyToSwitchOn
  | SwitchedOn
  | OperationEnabled
  | QuickStopActive
  | Fault
  | OtherDriveState

datatype StateTransition =
  T2 | T3 | T4 | T5 | T6 | T7 | T8 | T9 | T10 | T11 | T12 | T15 | OtherTransition

text \<open>
  Modelled from the spec: the enumerators of ModeOfOperationEnum other than NA (Maxon.cpp
  names NA only).
\<close>

datatype ModeOfOperationEnum =
  NA | CyclicSyncPosition | CyclicSyncVelocity | CyclicSyncTorque | ProfileVelocity | OtherMode

datatype RxPdoTypeEnum =
  RxPdoStandard | RxPdoCSP | RxPdoCST | RxPdoCSV | RxPdoCSTCSP | RxPdoPVM | RxPdoTypeOther

datatype TxPdoTypeEnum =
  TxPdoStandard | TxPdoCSP | TxPdoCST | TxPdoCSV | TxPdoCSTCSP | TxPdoPVM | TxPdoTypeOther

datatype ErrorType =
    ConfigurationError
  | ModeOfOperationError
  | RxPdoTypeError
  | TxPdoTypeError
  | SdoStateTransitionError
  | PdoStateTransitionError

text \<open>
  Controlword.cpp is not among the sources, so a control word is the sequence of setter calls
  that Maxon.cpp makes on a default-constructed Controlword object; nothing is assumed about
  the bit patterns the setters produce. \<open>setStateTransition t\<close> stands for the member
  functions setStateTransition2 ... setStateTransition15.
\<close>

datatype ControlwordCall = SetAllFalse | SetStateTransition StateTransition

type_synonym Controlword = "ControlwordCall list"

definition setAllFalse :: "Controlword \<Rightarrow> Controlword" where
  "setAllFalse cw = cw @ [SetAllFalse]"

definition setStateTransition :: "StateTransition \<Rightarrow> Controlword \<Rightarrow> Controlword" where
  "setStateTransition t cw = cw @ [SetStateTransition t]"

text \<open>The state transitions that were requested of a control word, in call order.\<close>

fun transitionsOf :: "Controlword \<Rightarrow> StateTransition list" where
  "transitionsOf [] = []"
| "transitionsOf (SetAllFalse # cw) = transitionsOf cw"
| "transitionsOf (SetStateTransition t # cw) = t # transitionsOf cw"

text \<open>
  The lines written by MELO\_ERROR\_STREAM and to std::cout, without the device name.
\<close>

datatype LogLine =
    ErrModeOfOperationNotSet
  | ErrUnsupportedRxPdoType
  | ErrUnsupportedTxPdoType
  | ErrDriveInFaultState
  | ErrModeChangeNotAllowed
  | ErrSdoStateTransitionNotImplemented
  | ErrDriveStateAlreadyReached
  | ErrPdoStateTransitionNotImplemented DriveState DriveState
  | ErrPdoStateCannotBeReached
  | CoutPdoStateMachineEngaged
  | CoutConductStateChange bool
  | CoutCurrentDriveState DriveState
  | CoutCorrectTargetStateReached
  | PrintErrorCode

text \<open>
  The members of Configuration that the modelled functions read. Timeouts are microseconds.
  The declared integer types are in Configuration.hpp, which is not among the sources: the
  timeouts are integers and the minimum number of confirming reads is a natural number.
  The double-precision members (nominalCurrentA, motorConstant, gearRatio, maxCurrentA) and
  positionEncoderResolution only feed the scaling factors of stageCommand, which are
  floating-point values and are not modelled.
\<close>

record Configuration =
  rxPdoTypeEnum :: RxPdoTypeEnum
  txPdoTypeEnum :: TxPdoTypeEnum
  modeOfOperationEnum :: ModeOfOperationEnum
  useMultipleModeOfOperations :: bool
  driveStateChangeMinTimeout :: int
  driveStateChangeMaxTimeout :: int
  minNumberOfSuccessfulTargetStateReadings :: nat

text \<open>
  Modelled from the spec: the Reading class (Reading.cpp is not among the sources). The drive
  state is a pure function of the most recent status word, so the status word is kept as the
  drive state it decodes to; errors accumulate in call order.
\<close>

record Reading =
  getDriveState :: DriveState
  actualCurrent :: int
  actualVelocity :: int
  actualPosition :: int
  demandVelocity :: int
  errors :: "ErrorType list"

definition addError :: "ErrorType \<Rightarrow> Reading \<Rightarrow> Reading" where
  "addError e r = r\<lparr>errors := errors r @ [e]\<rparr>"

text \<open>
  What the getters of a Command return: the mode of operation and the wire-unit setpoints.
  The conversion from physical units (Command::doUnitConversion) is not among the sources.
\<close>

record Command =
  getModeOfOperation :: ModeOfOperationEnum
  getTargetPositionRaw :: int
  getPositionOffsetRaw :: int
  getTorqueOffsetRaw :: int
  getTargetTorqueRaw :: int
  getTargetVelocityRaw :: int
  getVelocityOffsetRaw :: int
  getProfileAccelRaw :: int
  getProfileDeccelRaw :: int
  getMotionProfileType :: int

text \<open>
  The write-direction frames, one constructor for each struct that updateWrite fills, with
  the members in the order updateWrite assigns them. The mode of operation is the enumerator
  whose \<^verbatim>\<open>int8_t\<close> cast is written to the frame.
\<close>

datatype RxPdo =
    RxPdoStandardFrame ModeOfOperationEnum Controlword
  | RxPdoCSPFrame int int int Controlword ModeOfOperationEnum
  | RxPdoCSTFrame int int Controlword ModeOfOperationEnum
  | RxPdoCSVFrame int int Controlword ModeOfOperationEnum
  | RxPdoCSTCSPFrame Controlword ModeOfOperationEnum
  | RxPdoPVMFrame Controlword int int int int

text \<open>The control word and the mode of operation that updateWrite wrote into a frame.\<close>

fun frameControlWord :: "RxPdo \<Rightarrow> Controlword option" where
  "frameControlWord (RxPdoStandardFrame m cw) = Some cw"
| "frameControlWord (RxPdoCSPFrame tp po tq cw m) = Some cw"
| "frameControlWord (RxPdoCSTFrame tt tq cw m) = Some cw"
| "frameControlWord (RxPdoCSVFrame tv vo cw m) = Some cw"
| "frameControlWord (RxPdoCSTCSPFrame cw m) = Some cw"
| "frameControlWord (RxPdoPVMFrame cw tv pa pd mp) = Some cw"

fun frameModeOfOperation :: "RxPdo \<Rightarrow> ModeOfOperationEnum option" where
  "frameModeOfOperation (RxPdoStandardFrame m cw) = Some m"
| "frameModeOfOperation (RxPdoCSPFrame tp po tq cw m) = Some m"
| "frameModeOfOperation (RxPdoCSTFrame tt tq cw m) = Some m"
| "frameModeOfOperation (RxPdoCSVFrame tv vo cw m) = Some m"
| "frameModeOfOperation (RxPdoCSTCSPFrame cw m) = Some m"
| "frameModeOfOperation (RxPdoPVMFrame cw tv pa pd mp) = None"

text \<open>
  What the bus delivers to readTxPdo in one cycle; updateRead stores the members that the
  configured read-direction frame has.
\<close>

record TxPdo =
  statusword :: DriveState
  actualTorque :: int
  txActualVelocity :: int
  txActualPosition :: int
  txDemandVelocity :: int

text \<open>
  The members of the Maxon object, followed by what it has sent: the frames passed to
  writeRxPdo, the control words passed to sendSdoWrite, and the lines logged. Time points are
  microseconds on the steady clock. The confirmation counter is a natural number: it is reset
  when it reaches the configured minimum, so it stays below any bound the minimum respects.
\<close>

record Maxon =
  configuration :: Configuration
  reading :: Reading
  stagedCommand :: Command
  controlword :: Controlword
  modeOfOperation :: ModeOfOperationEnum
  allowModeChange :: bool
  conductStateChange :: bool
  hasRead :: bool
  stateChangeSuccessful :: bool
  targetDriveState :: DriveState
  numberOfSuccessfulTargetStateReadings :: nat
  driveStateChangeTimePoint :: int
  rxPdoWritten :: "RxPdo list"
  sdoWritten :: "Controlword list"
  logged :: "LogLine list"

definition logLine :: "LogLine \<Rightarrow> Maxon \<Rightarrow> Maxon" where
  "logLine l s = s\<lparr>logged := logged s @ [l]\<rparr>"

text \<open>
  Modelled from the spec: addErrorToReading, which is defined outside Maxon.cpp, accumulates
  the error into the Reading's error set.
\<close>

definition addErrorToReading :: "ErrorType \<Rightarrow> Maxon \<Rightarrow> Maxon" where
  "addErrorToReading e s = s\<lparr>reading := addError e (reading s)\<rparr>"

section \<open>The transition table of the cyclic channel\<close>

definition alreadyReached :: "Maxon \<Rightarrow> Maxon" where
  "alreadyReached s =
     addErrorToReading PdoStateTransitionError (logLine ErrDriveStateAlreadyReached s)"

definition notImplemented :: "DriveState \<Rightarrow> DriveState \<Rightarrow> Maxon \<Rightarrow> Maxon" where
  "notImplemented currentDriveState requestedDriveState s =
     addErrorToReading PdoStateTransitionError
       (logLine (ErrPdoStateTransitionNotImplemented currentDriveState requestedDriveState) s)"

definition getNextStateTransitionControlword ::
  "DriveState \<Rightarrow> DriveState \<Rightarrow> Maxon \<Rightarrow> Controlword \<times> Maxon" where
  "getNextStateTransitionControlword requestedDriveState currentDriveState s =
     (let cw = setAllFalse [] in
      case requestedDriveState of
        SwitchOnDisabled \<Rightarrow>
          (case currentDriveState of
             SwitchOnDisabled \<Rightarrow> (cw, alreadyReached s)
           | ReadyToSwitchOn \<Rightarrow> (setStateTransition T7 cw, s)
           | SwitchedOn \<Rightarrow> (setStateTransition T10 cw, s)
           | OperationEnabled \<Rightarrow> (setStateTransition T9 cw, s)
           | QuickStopActive \<Rightarrow> (setStateTransition T12 cw, s)
           | Fault \<Rightarrow> (setStateTransition T15 cw, s)
           | _ \<Rightarrow> (cw, notImplemented currentDriveState requestedDriveState s))
      | ReadyToSwitchOn \<Rightarrow>
          (case currentDriveState of
             SwitchOnDisabled \<Rightarrow> (setStateTransition T2 cw, s)
           | ReadyToSwitchOn \<Rightarrow> (cw, alreadyReached s)
           | SwitchedOn \<Rightarrow> (setStateTransition T6 cw, s)
           | OperationEnabled \<Rightarrow> (setStateTransition T8 cw, s)
           | QuickStopActive \<Rightarrow> (setStateTransition T12 cw, s)
           | Fault \<Rightarrow> (setStateTransition T15 cw, s)
           | _ \<Rightarrow> (cw, notImplemented currentDriveState requestedDriveState s))
      | SwitchedOn \<Rightarrow>
          (case currentDriveState of
             SwitchOnDisabled \<Rightarrow> (setStateTransition T2 cw, s)
           | ReadyToSwitchOn \<Rightarrow> (setStateTransition T3 cw, s)
           | SwitchedOn \<Rightarrow> (cw, alreadyReached s)
           | OperationEnabled \<Rightarrow> (setStateTransition T5 cw, s)
           | QuickStopActive \<Rightarrow> (setStateTransition T12 cw, s)
           | Fault \<Rightarrow> (setStateTransition T15 cw, s)
           | _ \<Rightarrow> (cw, notImplemented currentDriveState requestedDriveState s))
      | OperationEnabled \<Rightarrow>
          (case currentDriveState of
             SwitchOnDisabled \<Rightarrow> (setStateTransition T2 cw, s)
           | ReadyToSwitchOn \<Rightarrow> (setStateTransition T3 cw, s)
           | SwitchedOn \<Rightarrow> (setStateTransition T4 cw, s)
           | OperationEnabled \<Rightarrow> (cw, alreadyReached s)
           | QuickStopActive \<Rightarrow> (setStateTransition T12 cw, s)
           | Fault \<Rightarrow> (setStateTransition T15 cw, s)
           | _ \<Rightarrow> (cw, notImplemented currentDriveState requestedDriveState s))
      | QuickStopActive \<Rightarrow>
          (case currentDriveState of
             SwitchOnDisabled \<Rightarrow> (setStateTransition T2 cw, s)
           | ReadyToSwitchOn \<Rightarrow> (setStateTransition T3 cw, s)
           | SwitchedOn \<Rightarrow> (setStateTransition T4 cw, s)
           | OperationEnabled \<Rightarrow> (setStateTransition T11 cw, s)
           | QuickStopActive \<Rightarrow> (cw, alreadyReached s)
           | Fault \<Rightarrow> (setStateTransition T15 cw, s)
           | _ \<Rightarrow> (cw, notImplemented currentDriveState requestedDriveState s))
      | _ \<Rightarrow>
          (cw, addErrorToReading PdoStateTransitionError (logLine ErrPdoStateCannotBeReached s)))"

section \<open>The lifecycle state machine of the cyclic channel\<close>

text \<open>
  \<open>now\<close> is the reading of the steady clock at entry, \<open>now'\<close> the reading taken when
  a new control word has been chosen. The early return of the source, on completion, is the
  branch that leaves \<open>hasRead\<close> as it is.
\<close>

definition engagePdoStateMachine :: "int \<Rightarrow> int \<Rightarrow> Maxon \<Rightarrow> Maxon" where
  "engagePdoStateMachine now now' s =
     (let s1 = logLine (CoutConductStateChange (conductStateChange s))
                 (logLine CoutPdoStateMachineEngaged s);
          microsecondsSinceChange = now - driveStateChangeTimePoint s1;
          currentDriveState = getDriveState (reading s1);
          s2 = logLine (CoutCurrentDriveState currentDriveState) s1
      in if currentDriveState = targetDriveState s2 then
           (let s3 = (logLine CoutCorrectTargetStateReached s2)
                       \<lparr>numberOfSuccessfulTargetStateReadings :=
                          numberOfSuccessfulTargetStateReadings s2 + 1\<rparr>
            in if numberOfSuccessfulTargetStateReadings s3
                    \<ge> minNumberOfSuccessfulTargetStateReadings (configuration s3)
               then s3\<lparr>conductStateChange := False,
                       numberOfSuccessfulTargetStateReadings := 0,
                       stateChangeSuccessful := True\<rparr>
               else s3\<lparr>hasRead := False\<rparr>)
         else if microsecondsSinceChange > driveStateChangeMinTimeout (configuration s2) then
           (let (cw, s3) = getNextStateTransitionControlword (targetDriveState s2)
                             currentDriveState s2
            in s3\<lparr>controlword := cw, driveStateChangeTimePoint := now', hasRead := False\<rparr>)
         else s2\<lparr>hasRead := False\<rparr>)"

section \<open>The cyclic write and read\<close>

definition writeRxPdo :: "RxPdo \<Rightarrow> Maxon \<Rightarrow> Maxon" where
  "writeRxPdo f s = s\<lparr>rxPdoWritten := rxPdoWritten s @ [f]\<rparr>"

definition emitFrame :: "Maxon \<Rightarrow> Maxon" where
  "emitFrame s =
     (let c = stagedCommand s; cw = controlword s in
      case rxPdoTypeEnum (configuration s) of
        RxPdoStandard \<Rightarrow> writeRxPdo (RxPdoStandardFrame (modeOfOperation s) cw) s
      | RxPdoCSP \<Rightarrow>
          writeRxPdo (RxPdoCSPFrame (getTargetPositionRaw c) (getPositionOffsetRaw c)
                        (getTorqueOffsetRaw c) cw (getModeOfOperation c)) s
      | RxPdoCST \<Rightarrow>
          writeRxPdo (RxPdoCSTFrame (getTargetTorqueRaw c) (getTorqueOffsetRaw c) cw
                        (getModeOfOperation c)) s
      | RxPdoCSV \<Rightarrow>
          writeRxPdo (RxPdoCSVFrame (getTargetVelocityRaw c) (getVelocityOffsetRaw c) cw
                        (getModeOfOperation c)) s
      | RxPdoCSTCSP \<Rightarrow> writeRxPdo (RxPdoCSTCSPFrame cw (getModeOfOperation c)) s
      | RxPdoPVM \<Rightarrow>
          writeRxPdo (RxPdoPVMFrame cw (getTargetVelocityRaw c) (getProfileAccelRaw c)
                        (getProfileDeccelRaw c) (getMotionProfileType c)) s
      | _ \<Rightarrow> addErrorToReading RxPdoTypeError (logLine ErrUnsupportedRxPdoType s))"

definition updateWrite :: "int \<Rightarrow> int \<Rightarrow> Maxon \<Rightarrow> Maxon" where
  "updateWrite now now' s =
     (if modeOfOperation s = NA then
        (logLine ErrModeOfOperationNotSet s)
          \<lparr>reading := addError ModeOfOperationError (reading s)\<rparr>
      else
        emitFrame (if conductStateChange s \<and> hasRead s
                   then engagePdoStateMachine now now' s else s))"

definition updateRead :: "TxPdo \<Rightarrow> Maxon \<Rightarrow> Maxon" where
  "updateRead txPdo s =
     (let r = reading s;
          motion = r\<lparr>getDriveState := statusword txPdo,
                     actualCurrent := actualTorque txPdo,
                     actualVelocity := txActualVelocity txPdo,
                     actualPosition := txActualPosition txPdo\<rparr>;
          s1 = (case txPdoTypeEnum (configuration s) of
                  TxPdoStandard \<Rightarrow> s\<lparr>reading := r\<lparr>getDriveState := statusword txPdo\<rparr>\<rparr>
                | TxPdoCSP \<Rightarrow> s\<lparr>reading := motion\<rparr>
                | TxPdoCST \<Rightarrow> s\<lparr>reading := motion\<rparr>
                | TxPdoCSV \<Rightarrow> s\<lparr>reading := motion\<rparr>
                | TxPdoCSTCSP \<Rightarrow> s\<lparr>reading := motion\<rparr>
                | TxPdoPVM \<Rightarrow>
                    s\<lparr>reading := r\<lparr>demandVelocity := txDemandVelocity txPdo,
                                    getDriveState := statusword txPdo\<rparr>\<rparr>
                | _ \<Rightarrow> (logLine ErrUnsupportedTxPdoType s)
                         \<lparr>reading := addError TxPdoTypeError r\<rparr>);
          s2 = (if \<not> hasRead s1 then s1\<lparr>hasRead := True\<rparr> else s1)
      in if getDriveState (reading s2) = Fault
         then logLine PrintErrorCode (logLine ErrDriveInFaultState s2)
         else s2)"

section \<open>Command staging and configuration\<close>

text \<open>
  \<open>doUnitConversion\<close> stands for lines 349 to 362 of stageCommand: the setters of the
  scaling factors and limits on the copy of the command, and Command::doUnitConversion. They
  compute in double precision from members of the configuration and live in Command.cpp.
\<close>

definition stageCommand ::
  "(Configuration \<Rightarrow> Command \<Rightarrow> Command) \<Rightarrow> Command \<Rightarrow> Maxon \<Rightarrow> Maxon" where
  "stageCommand doUnitConversion command s =
     (let s1 = s\<lparr>stagedCommand := doUnitConversion (configuration s) command\<rparr> in
      if allowModeChange s1 then s1\<lparr>modeOfOperation := getModeOfOperation command\<rparr>
      else if modeOfOperation s1 \<noteq> getModeOfOperation command
              \<and> getModeOfOperation command \<noteq> NA
           then logLine ErrModeChangeNotAllowed s1
           else s1)"

text \<open>
  The call of Reading::configureReading only passes scaling factors to the Reading; it has no
  counterpart in the model.
\<close>

definition loadConfiguration :: "Configuration \<Rightarrow> Maxon \<Rightarrow> bool \<times> Maxon" where
  "loadConfiguration cfg s =
     (True,
      s\<lparr>allowModeChange :=
          (useMultipleModeOfOperations cfg
           \<and> rxPdoTypeEnum cfg = RxPdoStandard
           \<and> txPdoTypeEnum cfg = TxPdoStandard),
        modeOfOperation := modeOfOperationEnum cfg,
        configuration := cfg\<rparr>)"

section \<open>State changes over the service channel\<close>

text \<open>
  \<open>sdoWriteOk n\<close> is the answer of the bus to the SDO write that follows \<open>n\<close> earlier
  ones. A transition that the switch of stateTransitionViaSdo does not name is refused.
\<close>

definition stateTransitionViaSdo ::
  "(nat \<Rightarrow> bool) \<Rightarrow> StateTransition \<Rightarrow> Maxon \<Rightarrow> bool \<times> Maxon" where
  "stateTransitionViaSdo sdoWriteOk stateTransition s =
     (case stateTransition of
        OtherTransition \<Rightarrow>
          (False, addErrorToReading SdoStateTransitionError
                    (logLine ErrSdoStateTransitionNotImplemented s))
      | _ \<Rightarrow>
          (sdoWriteOk (length (sdoWritten s)),
           s\<lparr>sdoWritten := sdoWritten s @ [setStateTransition stateTransition []]\<rparr>))"

text \<open>
  The statements \<^verbatim>\<open>success &= stateTransitionViaSdo(...)\<close> of one branch, in order. The
  operator does not short-circuit: every transition of the branch is sent.
\<close>

fun stateTransitionsViaSdo ::
  "(nat \<Rightarrow> bool) \<Rightarrow> StateTransition list \<Rightarrow> bool \<times> Maxon \<Rightarrow> bool \<times> Maxon" where
  "stateTransitionsViaSdo sdoWriteOk [] r = r"
| "stateTransitionsViaSdo sdoWriteOk (t # ts) (success, s) =
     (let (ok, s') = stateTransitionViaSdo sdoWriteOk t s
      in stateTransitionsViaSdo sdoWriteOk ts (success \<and> ok, s'))"

text \<open>
  The branches of the nested switch of setDriveStateViaSdo: the transitions a branch sends, or
  None for a \<^verbatim>\<open>default:\<close> branch.
\<close>

definition transitionPathViaSdo :: "DriveState \<Rightarrow> DriveState \<Rightarrow> StateTransition list option" where
  "transitionPathViaSdo driveState currentDriveState =
     (case driveState of
        SwitchOnDisabled \<Rightarrow>
          (case currentDriveState of
             SwitchOnDisabled \<Rightarrow> Some []
           | ReadyToSwitchOn \<Rightarrow> Some [T7]
           | SwitchedOn \<Rightarrow> Some [T10]
           | OperationEnabled \<Rightarrow> Some [T9]
           | QuickStopActive \<Rightarrow> Some [T12]
           | Fault \<Rightarrow> Some [T15]
           | _ \<Rightarrow> None)
      | ReadyToSwitchOn \<Rightarrow>
          (case currentDriveState of
             SwitchOnDisabled \<Rightarrow> Some [T2]
           | ReadyToSwitchOn \<Rightarrow> Some []
           | SwitchedOn \<Rightarrow> Some [T6]
           | OperationEnabled \<Rightarrow> Some [T8]
           | QuickStopActive \<Rightarrow> Some [T12, T2]
           | Fault \<Rightarrow> Some [T15, T2]
           | _ \<Rightarrow> None)
      | SwitchedOn \<Rightarrow>
          (case currentDriveState of
             SwitchOnDisabled \<Rightarrow> Some [T2, T3]
           | ReadyToSwitchOn \<Rightarrow> Some [T3]
           | SwitchedOn \<Rightarrow> Some []
           | OperationEnabled \<Rightarrow> Some [T5]
           | QuickStopActive \<Rightarrow> Some [T12, T2, T3]
           | Fault \<Rightarrow> Some [T15, T2, T3]
           | _ \<Rightarrow> None)
      | OperationEnabled \<Rightarrow>
          (case currentDriveState of
             SwitchOnDisabled \<Rightarrow> Some [T2, T3, T4]
           | ReadyToSwitchOn \<Rightarrow> Some [T3, T4]
           | SwitchedOn \<Rightarrow> Some [T4]
           | OperationEnabled \<Rightarrow> Some []
           | QuickStopActive \<Rightarrow> Some [T12, T2, T3, T4]
           | Fault \<Rightarrow> Some [T15, T2, T3, T4]
           | _ \<Rightarrow> None)
      | QuickStopActive \<Rightarrow>
          (case currentDriveState of
             SwitchOnDisabled \<Rightarrow> Some [T2, T3, T4, T11]
           | ReadyToSwitchOn \<Rightarrow> Some [T3, T4, T11]
           | SwitchedOn \<Rightarrow> Some [T4, T11]
           | OperationEnabled \<Rightarrow> Some [T11]
           | QuickStopActive \<Rightarrow> Some []
           | Fault \<Rightarrow> Some [T15, T2, T3, T4, T11]
           | _ \<Rightarrow> None)
      | _ \<Rightarrow> None)"

text \<open>
  \<open>statusReply\<close> is the answer to the SDO read of the status word: whether the read
  succeeded, and the drive state the value decodes to.
\<close>

definition setDriveStateViaSdo ::
  "bool \<times> DriveState \<Rightarrow> (nat \<Rightarrow> bool) \<Rightarrow> DriveState \<Rightarrow> Maxon \<Rightarrow> bool \<times> Maxon" where
  "setDriveStateViaSdo statusReply sdoWriteOk driveState s =
     (let (success, currentDriveState) = statusReply in
      case transitionPathViaSdo driveState currentDriveState of
        Some ts \<Rightarrow> stateTransitionsViaSdo sdoWriteOk ts (success, s)
      | None \<Rightarrow>
          (False, addErrorToReading SdoStateTransitionError
                    (logLine ErrSdoStateTransitionNotImplemented s)))"

section \<open>State changes over the cyclic channel\<close>

text \<open>
  The first part of setDriveStateViaPdo, up to the test of waitForState. \<open>now\<close> is the
  reading of the steady clock stored in driveStateChangeTimePoint.
\<close>

definition armStateChange :: "DriveState \<Rightarrow> int \<Rightarrow> Maxon \<Rightarrow> Maxon" where
  "armStateChange driveState now s =
     s\<lparr>stateChangeSuccessful := False,
       conductStateChange := True,
       targetDriveState := driveState,
       hasRead := False,
       driveStateChangeTimePoint := now\<rparr>"

text \<open>
  The waiting loop. The caller holds the mutex while it tests the flag and the clock, and
  releases it while it sleeps, when the threads of the bus cycle and of other callers run. An
  element \<open>(now, others)\<close> of the schedule belongs to one iteration that reaches the
  timeout test: \<open>now\<close> is the clock reading of the test and \<open>others\<close> is what the other
  threads do to the object during the sleep that follows. The loop of the source has no bound
  of its own; a schedule that ends before the loop does gives None.
\<close>

fun waitForStateChange ::
  "int \<Rightarrow> (int \<times> (Maxon \<Rightarrow> Maxon)) list \<Rightarrow> Maxon \<Rightarrow> (bool \<times> Maxon) option" where
  "waitForStateChange start [] s =
     (if stateChangeSuccessful s then Some (True, s) else None)"
| "waitForStateChange start ((now, others) # schedule) s =
     (if stateChangeSuccessful s then Some (True, s)
      else if now - start > driveStateChangeMaxTimeout (configuration s) then Some (False, s)
      else waitForStateChange start schedule (others s))"

text \<open>
  \<open>now\<close> and \<open>start\<close> are the two clock readings taken before the test of
  waitForState.
\<close>

definition setDriveStateViaPdo ::
  "DriveState \<Rightarrow> bool \<Rightarrow> int \<Rightarrow> int \<Rightarrow> (int \<times> (Maxon \<Rightarrow> Maxon)) list \<Rightarrow> Maxon
   \<Rightarrow> (bool \<times> Maxon) option" where
  "setDriveStateViaPdo driveState waitForState now start schedule s =
     (let s1 = armStateChange driveState now s in
      if \<not> waitForState then Some (True, s1)
      else waitForStateChange start schedule s1)"

text \<open>The state in which an iteration of the waiting loop finds the object.\<close>

fun afterSleeps :: "(int \<times> (Maxon \<Rightarrow> Maxon)) list \<Rightarrow> Maxon \<Rightarrow> Maxon" where
  "afterSleeps [] s = s"
| "afterSleeps ((now, others) # schedule) s = afterSleeps schedule (others s)"

text \<open>
  No iteration of a schedule leaves the loop: at each one the change is still unconfirmed and
  the timeout has not elapsed.
\<close>

fun keepsWaiting :: "int \<Rightarrow> (int \<times> (Maxon \<Rightarrow> Maxon)) list \<Rightarrow> Maxon \<Rightarrow> bool" where
  "keepsWaiting start [] s = True"
| "keepsWaiting start ((now, others) # schedule) s =
     (\<not> stateChangeSuccessful s
      \<and> \<not> now - start > driveStateChangeMaxTimeout (configuration s)
      \<and> keepsWaiting start schedule (others s))"

section \<open>Sequences of calls\<close>

text \<open>
  The operations that run during cyclic operation, with the clock readings and bus data each
  one meets. A waiting setDriveStateViaPdo changes the object only in its first part, so the
  call is that part. The configuration is loaded before cyclic operation starts and
  loadConfiguration is not among the calls.
\<close>

datatype Call =
    UpdateRead TxPdo
  | UpdateWrite int int
  | StageCommand Command
  | SetDriveStateViaPdo DriveState int
  | SetDriveStateViaSdo "bool \<times> DriveState" "nat \<Rightarrow> bool" DriveState

fun call :: "(Configuration \<Rightarrow> Command \<Rightarrow> Command) \<Rightarrow> Call \<Rightarrow> Maxon \<Rightarrow> Maxon" where
  "call conv (UpdateRead txPdo) s = updateRead txPdo s"
| "call conv (UpdateWrite now now') s = updateWrite now now' s"
| "call conv (StageCommand command) s = stageCommand conv command s"
| "call conv (SetDriveStateViaPdo driveState now) s = armStateChange driveState now s"
| "call conv (SetDriveStateViaSdo statusReply sdoWriteOk driveState) s =
     snd (setDriveStateViaSdo statusReply sdoWriteOk driveState s)"

fun run :: "(Configuration \<Rightarrow> Command \<Rightarrow> Command) \<Rightarrow> Call list \<Rightarrow> Maxon \<Rightarrow> Maxon" where
  "run conv [] s = s"
| "run conv (c # cs) s = run conv cs (call conv c s)"

text \<open>
  Each run of engagePdoStateMachine prints its first line once, and each run that finds the
  drive in the target state prints "Correct target state reached" once; the log counts them.
\<close>

definition evaluations :: "Maxon \<Rightarrow> nat" where
  "evaluations s = count_list (logged s) CoutPdoStateMachineEngaged"

definition confirmations :: "Maxon \<Rightarrow> nat" where
  "confirmations s = count_list (logged s) CoutCorrectTargetStateReached"

fun isUpdateRead :: "Call \<Rightarrow> bool" where
  "isUpdateRead (UpdateRead txPdo) = True"
| "isUpdateRead c = False"

definition readCycles :: "Call list \<Rightarrow> nat" where
  "readCycles cs = length (filter isUpdateRead cs)"

fun isSetDriveStateViaPdo :: "Call \<Rightarrow> bool" where
  "isSetDriveStateViaPdo (SetDriveStateViaPdo driveState now) = True"
| "isSetDriveStateViaPdo c = False"

text \<open>The number of times a sequence of calls arms a state change.\<close>

definition rearms :: "Call list \<Rightarrow> nat" where
  "rearms cs = length (filter isSetDriveStateViaPdo cs)"

text \<open>
  The members and counts that the lifecycle state machine works on: the pending-change flag,
  the fresh-read flag, the success flag, the confirmation counter, the configured minimum, and
  the two counts read off the log.
\<close>

definition lifecycle :: "Maxon \<Rightarrow> bool \<times> bool \<times> bool \<times> nat \<times> nat \<times> nat \<times> nat" where
  "lifecycle s =
     (conductStateChange s, hasRead s, stateChangeSuccessful s,
      numberOfSuccessfulTargetStateReadings s,
      minNumberOfSuccessfulTargetStateReadings (configuration s),
      evaluations s, confirmations s)"

section \<open>A concrete device\<close>

text \<open>A bus that acknowledges every SDO write.\<close>

definition demoSdoWriteOk :: "nat \<Rightarrow> bool" where
  "demoSdoWriteOk n = True"

text \<open>
  A unit conversion that leaves the command as it is, as for a command given in wire units.
\<close>

definition rawPassthrough :: "Configuration \<Rightarrow> Command \<Rightarrow> Command" where
  "rawPassthrough cfg command = command"

definition demoConfiguration :: Configuration where
  "demoConfiguration =
     \<lparr>rxPdoTypeEnum = RxPdoStandard, txPdoTypeEnum = TxPdoStandard,
      modeOfOperationEnum = CyclicSyncPosition, useMultipleModeOfOperations = False,
      driveStateChangeMinTimeout = 20000, driveStateChangeMaxTimeout = 300000,
      minNumberOfSuccessfulTargetStateReadings = 2\<rparr>"

text \<open>
  A configuration with the cyclic-synchronous-position frames in both directions, and a
  command in that mode.
\<close>

definition demoConfigurationCSP :: Configuration where
  "demoConfigurationCSP =
     \<lparr>rxPdoTypeEnum = RxPdoCSP, txPdoTypeEnum = TxPdoCSP,
      modeOfOperationEnum = CyclicSyncPosition, useMultipleModeOfOperations = False,
      driveStateChangeMinTimeout = 20000, driveStateChangeMaxTimeout = 300000,
      minNumberOfSuccessfulTargetStateReadings = 2\<rparr>"

definition demoPositionCommand :: Command where
  "demoPositionCommand =
     \<lparr>getModeOfOperation = CyclicSyncPosition, getTargetPositionRaw = 100,
      getPositionOffsetRaw = 0, getTorqueOffsetRaw = 0, getTargetTorqueRaw = 0,
      getTargetVelocityRaw = 0, getVelocityOffsetRaw = 0, getProfileAccelRaw = 1000,
      getProfileDeccelRaw = 1000, getMotionProfileType = 0\<rparr>"

definition demoCommand :: Command where
  "demoCommand =
     \<lparr>getModeOfOperation = CyclicSyncVelocity, getTargetPositionRaw = 100,
      getPositionOffsetRaw = 0, getTorqueOffsetRaw = 0, getTargetTorqueRaw = 0,
      getTargetVelocityRaw = 50, getVelocityOffsetRaw = 0, getProfileAccelRaw = 1000,
      getProfileDeccelRaw = 1000, getMotionProfileType = 0\<rparr>"

definition demoMaxon :: Maxon where
  "demoMaxon =
     \<lparr>configuration = demoConfiguration,
      reading = \<lparr>getDriveState = SwitchOnDisabled, actualCurrent = 0, actualVelocity = 0,
                 actualPosition = 0, demandVelocity = 0, errors = []\<rparr>,
      stagedCommand = demoCommand,
      controlword = [],
      modeOfOperation = CyclicSyncPosition,
      allowModeChange = False,
      conductStateChange = False,
      hasRead = False,
      stateChangeSuccessful = False,
      targetDriveState = SwitchOnDisabled,
      numberOfSuccessfulTargetStateReadings = 0,
      driveStateChangeTimePoint = 0,
      rxPdoWritten = [], sdoWritten = [], logged = []\<rparr>"

definition demoTxPdo :: "DriveState \<Rightarrow> TxPdo" where
  "demoTxPdo d =
     \<lparr>statusword = d, actualTorque = 0, txActualVelocity = 0, txActualPosition = 0,
      txDemandVelocity = 0\<rparr>"

section \<open>Properties\<close>

lemmas demo_defs = demoMaxon_def demoConfiguration_def demoCommand_def demoTxPdo_def
  rawPassthrough_def demoSdoWriteOk_def

lemmas op_defs = updateWrite_def updateRead_def engagePdoStateMachine_def armStateChange_def
  emitFrame_def writeRxPdo_def logLine_def addError_def addErrorToReading_def Let_def
  getNextStateTransitionControlword_def setAllFalse_def setStateTransition_def
  alreadyReached_def notImplemented_def stageCommand_def

subsection \<open>The cyclic write\<close>

text \<open>
  C5: whenever updateWrite runs with the active mode of operation NA, it adds
  ModeOfOperationError to the Reading's error set and does nothing else but log the error: no
  frame is written to the bus, the lifecycle state machine is not engaged (none of its members
  changes and none of its output lines appears), whatever the clock readings are.
\<close>

theorem updateWrite_mode_NA_skips:
  "updateWrite now now' (s\<lparr>modeOfOperation := NA\<rparr>) =
     s\<lparr>modeOfOperation := NA,
       reading := (reading s)\<lparr>errors := errors (reading s) @ [ModeOfOperationError]\<rparr>,
       logged := logged s @ [ErrModeOfOperationNotSet]\<rparr>"
  by (simp add: updateWrite_def logLine_def addError_def)

text \<open>The transition table changes only the Reading and the log.\<close>

lemma getNext_shape:
  "\<exists>r l. snd (getNextStateTransitionControlword req cur s) = s\<lparr>reading := r, logged := l\<rparr>"
proof -
  have a: "\<exists>r l. alreadyReached s = s\<lparr>reading := r, logged := l\<rparr>"
    unfolding alreadyReached_def addErrorToReading_def logLine_def
    by (intro exI[of _ "addError PdoStateTransitionError (reading s)"] exI[of _ "logged s @ [ErrDriveStateAlreadyReached]"]) simp
  have n: "\<exists>r l. notImplemented c q s = s\<lparr>reading := r, logged := l\<rparr>" for c q
    unfolding notImplemented_def addErrorToReading_def logLine_def
    by (intro exI[of _ "addError PdoStateTransitionError (reading s)"] exI[of _ "logged s @ [ErrPdoStateTransitionNotImplemented c q]"]) simp
  have c: "\<exists>r l. addErrorToReading PdoStateTransitionError (logLine ErrPdoStateCannotBeReached s) = s\<lparr>reading := r, logged := l\<rparr>"
    unfolding addErrorToReading_def logLine_def
    by (intro exI[of _ "addError PdoStateTransitionError (reading s)"] exI[of _ "logged s @ [ErrPdoStateCannotBeReached]"]) simp
  have i: "\<exists>r l. s = s\<lparr>reading := r, logged := l\<rparr>"
    by (intro exI[of _ "reading s"] exI[of _ "logged s"]) simp
  show ?thesis
    unfolding getNextStateTransitionControlword_def Let_def
    by (cases req; cases cur; simp only: DriveState.case snd_conv a n c i)
qed

lemma getNext_keeps:
  "configuration (snd (getNextStateTransitionControlword req cur s)) = configuration s"
  "stagedCommand (snd (getNextStateTransitionControlword req cur s)) = stagedCommand s"
  "modeOfOperation (snd (getNextStateTransitionControlword req cur s)) = modeOfOperation s"
  "rxPdoWritten (snd (getNextStateTransitionControlword req cur s)) = rxPdoWritten s"
  "conductStateChange (snd (getNextStateTransitionControlword req cur s)) = conductStateChange s"
  "stateChangeSuccessful (snd (getNextStateTransitionControlword req cur s)) = stateChangeSuccessful s"
  "numberOfSuccessfulTargetStateReadings (snd (getNextStateTransitionControlword req cur s)) =
     numberOfSuccessfulTargetStateReadings s"
  using getNext_shape[of req cur s] by auto

lemma engage_keeps:
  "configuration (engagePdoStateMachine now now' s) = configuration s"
  "stagedCommand (engagePdoStateMachine now now' s) = stagedCommand s"
  "modeOfOperation (engagePdoStateMachine now now' s) = modeOfOperation s"
  "rxPdoWritten (engagePdoStateMachine now now' s) = rxPdoWritten s"
  by (simp_all add: engagePdoStateMachine_def Let_def case_prod_beta getNext_keeps logLine_def)

lemma emitFrame_written:
  assumes "rxPdoTypeEnum (configuration s) \<noteq> RxPdoTypeOther"
  shows "\<exists>f. emitFrame s = s\<lparr>rxPdoWritten := rxPdoWritten s @ [f]\<rparr>
           \<and> frameControlWord f = Some (controlword s)
           \<and> frameModeOfOperation f =
               (case rxPdoTypeEnum (configuration s) of
                  RxPdoStandard \<Rightarrow> Some (modeOfOperation s)
                | RxPdoPVM \<Rightarrow> None
                | _ \<Rightarrow> Some (getModeOfOperation (stagedCommand s)))"
proof (cases "rxPdoTypeEnum (configuration s)")
  case RxPdoStandard
  then show ?thesis
    by (intro exI[of _ "RxPdoStandardFrame (modeOfOperation s) (controlword s)"])
       (simp add: emitFrame_def writeRxPdo_def Let_def)
next
  case RxPdoCSP
  then show ?thesis
    by (intro exI[of _ "RxPdoCSPFrame (getTargetPositionRaw (stagedCommand s))
          (getPositionOffsetRaw (stagedCommand s)) (getTorqueOffsetRaw (stagedCommand s))
          (controlword s) (getModeOfOperation (stagedCommand s))"])
       (simp add: emitFrame_def writeRxPdo_def Let_def)
next
  case RxPdoCST
  then show ?thesis
    by (intro exI[of _ "RxPdoCSTFrame (getTargetTorqueRaw (stagedCommand s))
          (getTorqueOffsetRaw (stagedCommand s)) (controlword s)
          (getModeOfOperation (stagedCommand s))"])
       (simp add: emitFrame_def writeRxPdo_def Let_def)
next
  case RxPdoCSV
  then show ?thesis
    by (intro exI[of _ "RxPdoCSVFrame (getTargetVelocityRaw (stagedCommand s))
          (getVelocityOffsetRaw (stagedCommand s)) (controlword s)
          (getModeOfOperation (stagedCommand s))"])
       (simp add: emitFrame_def writeRxPdo_def Let_def)
next
  case RxPdoCSTCSP
  then show ?thesis
    by (intro exI[of _ "RxPdoCSTCSPFrame (controlword s) (getModeOfOperation (stagedCommand s))"])
       (simp add: emitFrame_def writeRxPdo_def Let_def)
next
  case RxPdoPVM
  then show ?thesis
    by (intro exI[of _ "RxPdoPVMFrame (controlword s) (getTargetVelocityRaw (stagedCommand s))
          (getProfileAccelRaw (stagedCommand s)) (getProfileDeccelRaw (stagedCommand s))
          (getMotionProfileType (stagedCommand s))"])
       (simp add: emitFrame_def writeRxPdo_def Let_def)
next
  case RxPdoTypeOther
  with assms show ?thesis by simp
qed

text \<open>
  C7, as amended: when the active mode of operation is resolved and the write-direction frame
  variant is one of the six supported ones, updateWrite writes exactly one frame, and the frame
  carries the control word the object holds after the call. The frame carries a mode of
  operation in every variant but the profile-velocity one (RxPdoPVM): the active mode in the
  standard variant, the staged command's mode in the CSP, CST, CSV and CSTCSP variants, and
  none in the RxPdoPVM variant.
\<close>

theorem updateWrite_frame_contents:
  assumes "modeOfOperation s \<noteq> NA" and "rxPdoTypeEnum (configuration s) \<noteq> RxPdoTypeOther"
  shows "\<exists>f. rxPdoWritten (updateWrite now now' s) = rxPdoWritten s @ [f]
           \<and> frameControlWord f = Some (controlword (updateWrite now now' s))
           \<and> frameModeOfOperation f =
               (case rxPdoTypeEnum (configuration s) of
                  RxPdoStandard \<Rightarrow> Some (modeOfOperation s)
                | RxPdoPVM \<Rightarrow> None
                | _ \<Rightarrow> Some (getModeOfOperation (stagedCommand s)))"
proof -
  define s1 where "s1 = (if conductStateChange s \<and> hasRead s
                         then engagePdoStateMachine now now' s else s)"
  have keep: "configuration s1 = configuration s" "stagedCommand s1 = stagedCommand s"
    "modeOfOperation s1 = modeOfOperation s" "rxPdoWritten s1 = rxPdoWritten s"
    by (simp_all add: s1_def engage_keeps)
  have uw: "updateWrite now now' s = emitFrame s1"
    using assms(1) by (simp add: updateWrite_def s1_def)
  from assms(2) keep(1) have "rxPdoTypeEnum (configuration s1) \<noteq> RxPdoTypeOther" by simp
  from emitFrame_written[OF this] obtain f where
    f: "emitFrame s1 = s1\<lparr>rxPdoWritten := rxPdoWritten s1 @ [f]\<rparr>"
       "frameControlWord f = Some (controlword s1)"
       "frameModeOfOperation f =
               (case rxPdoTypeEnum (configuration s1) of
                  RxPdoStandard \<Rightarrow> Some (modeOfOperation s1)
                | RxPdoPVM \<Rightarrow> None
                | _ \<Rightarrow> Some (getModeOfOperation (stagedCommand s1)))"
    by blast
  show ?thesis
    by (rule exI[of _ f]) (simp add: uw f keep split: RxPdoTypeEnum.split)
qed

theorem updateWrite_frame_contents_witness:
  "modeOfOperation demoMaxon \<noteq> NA \<and> rxPdoTypeEnum (configuration demoMaxon) \<noteq> RxPdoTypeOther
   \<and> (\<exists>f. rxPdoWritten (updateWrite 0 0 demoMaxon) = rxPdoWritten demoMaxon @ [f]
           \<and> frameControlWord f = Some (controlword (updateWrite 0 0 demoMaxon))
           \<and> frameModeOfOperation f = Some CyclicSyncPosition)"
  using updateWrite_frame_contents[of demoMaxon 0 0]
  by (simp add: demoMaxon_def demoConfiguration_def)

text \<open>
  The claim C7 as stated fails for the RxPdoPVM variant: the frame written holds the control
  word, the target velocity, the profile acceleration and deceleration and the motion profile
  type, and no mode of operation.
\<close>

theorem updateWrite_PVM_frame_without_mode:
  "rxPdoWritten (updateWrite 0 0 (demoMaxon\<lparr>configuration := demoConfiguration\<lparr>rxPdoTypeEnum := RxPdoPVM\<rparr>, modeOfOperation := ProfileVelocity\<rparr>))
     = [RxPdoPVMFrame [] 50 1000 1000 0]
   \<and> frameModeOfOperation (RxPdoPVMFrame [] 50 1000 1000 0) = None"
  by (simp add: updateWrite_def emitFrame_def writeRxPdo_def demoMaxon_def demoConfiguration_def demoCommand_def)

subsection \<open>Command staging\<close>

text \<open>
  What stageCommand does to the active mode of operation: when mode switching is not allowed
  and the command asks for a mode that differs from the active one and is not NA, the member
  modeOfOperation is kept and the error "changing the mode of operation is not allowed" is
  logged; when mode switching is allowed, the member takes the mode of the command. Loading a
  configuration allows mode switching exactly when the configuration enables multiple modes of
  operation and both frame variants are the standard ones. In every case the staged command is
  replaced by the new one.
\<close>

lemma stageCommand_modeOfOperation:
  "(\<not> allowModeChange s \<and> getModeOfOperation command \<noteq> modeOfOperation s
      \<and> getModeOfOperation command \<noteq> NA
    \<longrightarrow> modeOfOperation (stageCommand conv command s) = modeOfOperation s
        \<and> logged (stageCommand conv command s) = logged s @ [ErrModeChangeNotAllowed])
   \<and> (allowModeChange s
    \<longrightarrow> modeOfOperation (stageCommand conv command s) = getModeOfOperation command)
   \<and> allowModeChange (snd (loadConfiguration cfg s)) =
       (useMultipleModeOfOperations cfg \<and> rxPdoTypeEnum cfg = RxPdoStandard
        \<and> txPdoTypeEnum cfg = TxPdoStandard)
   \<and> modeOfOperation (snd (loadConfiguration cfg s)) = modeOfOperationEnum cfg
   \<and> stagedCommand (stageCommand conv command s) = conv (configuration s) command"
  by (auto simp add: stageCommand_def logLine_def Let_def loadConfiguration_def)

text \<open>
  C2 does not hold of the code. With the cyclic-synchronous-position frames mode switching is
  not allowed. A command in the active mode CyclicSyncPosition is staged and written; then a
  command in the mode CyclicSyncVelocity is staged. stageCommand logs that changing the mode
  is not allowed and keeps the member modeOfOperation, but it has replaced the staged command,
  and the next frame takes its mode of operation from the staged command: the refused mode
  CyclicSyncVelocity is written to the bus.
\<close>

theorem stageCommand_refused_mode_written:
  "\<not> allowModeChange (snd (loadConfiguration demoConfigurationCSP demoMaxon))
   \<and> modeOfOperation (snd (loadConfiguration demoConfigurationCSP demoMaxon)) = CyclicSyncPosition
   \<and> getModeOfOperation demoCommand = CyclicSyncVelocity
   \<and> modeOfOperation
        (run rawPassthrough
           [StageCommand demoPositionCommand, UpdateWrite 0 0,
            StageCommand demoCommand, UpdateWrite 1 1]
           (snd (loadConfiguration demoConfigurationCSP demoMaxon))) = CyclicSyncPosition
   \<and> logged
        (run rawPassthrough
           [StageCommand demoPositionCommand, UpdateWrite 0 0,
            StageCommand demoCommand, UpdateWrite 1 1]
           (snd (loadConfiguration demoConfigurationCSP demoMaxon))) = [ErrModeChangeNotAllowed]
   \<and> rxPdoWritten
        (run rawPassthrough
           [StageCommand demoPositionCommand, UpdateWrite 0 0,
            StageCommand demoCommand, UpdateWrite 1 1]
           (snd (loadConfiguration demoConfigurationCSP demoMaxon))) =
       [RxPdoCSPFrame 100 0 0 [] CyclicSyncPosition, RxPdoCSPFrame 100 0 0 [] CyclicSyncVelocity]"
  by (simp add: demo_defs op_defs demoConfigurationCSP_def demoPositionCommand_def
        loadConfiguration_def)

subsection \<open>The transition tables\<close>

lemma path_shape:
  assumes "requested \<noteq> Fault" "requested \<noteq> OtherDriveState" "current \<noteq> OtherDriveState"
  shows "\<exists>ts. transitionPathViaSdo requested current = Some ts
           \<and> OtherTransition \<notin> set ts
           \<and> transitionsOf (fst (getNextStateTransitionControlword requested current s)) = take 1 ts
           \<and> (if current = requested then ts = [] else 1 \<le> length ts \<and> length ts \<le> 5)"
  using assms
  by (cases requested; cases current;
      simp add: transitionPathViaSdo_def getNextStateTransitionControlword_def
                setAllFalse_def setStateTransition_def)

lemma stateTransitionsViaSdo_written:
  "OtherTransition \<notin> set ts \<Longrightarrow>
   sdoWritten (snd (stateTransitionsViaSdo wr ts (ok, s))) =
     sdoWritten s @ map (\<lambda>t. setStateTransition t []) ts"
proof (induction ts arbitrary: ok s)
  case Nil
  show ?case by simp
next
  case (Cons t ts)
  from Cons.prems have t: "t \<noteq> OtherTransition" and ts: "OtherTransition \<notin> set ts" by auto
  from t have st: "stateTransitionViaSdo wr t s =
      (wr (length (sdoWritten s)), s\<lparr>sdoWritten := sdoWritten s @ [setStateTransition t []]\<rparr>)"
    by (cases t) (simp_all add: stateTransitionViaSdo_def)
  show ?case by (simp add: st Cons.IH[OF ts])
qed

text \<open>
  C3, as amended: for every requested drive state that the switches name as a target
  (SwitchOnDisabled, ReadyToSwitchOn, SwitchedOn, OperationEnabled, QuickStopActive) and every
  named current drive state, setDriveStateViaSdo sends one ordered list of transitions and
  getNextStateTransitionControlword asks for the first transition of that list. For a pair of
  distinct states the list has between one and five transitions, so the cyclic channel asks
  for exactly one; for a pair of equal states the list is empty and no transition is asked for.
\<close>

theorem transition_paths:
  assumes "requested \<noteq> Fault" "requested \<noteq> OtherDriveState" "current \<noteq> OtherDriveState"
  shows "\<exists>ts. sdoWritten (snd (setDriveStateViaSdo (ok, current) sdoWriteOk requested s)) =
                sdoWritten s @ map (\<lambda>t. setStateTransition t []) ts
           \<and> transitionsOf (fst (getNextStateTransitionControlword requested current s)) = take 1 ts
           \<and> (if current = requested then ts = [] else 1 \<le> length ts \<and> length ts \<le> 5)"
proof -
  from path_shape[OF assms, of s] obtain ts where
    ts: "transitionPathViaSdo requested current = Some ts" "OtherTransition \<notin> set ts"
        "transitionsOf (fst (getNextStateTransitionControlword requested current s)) = take 1 ts"
        "if current = requested then ts = [] else 1 \<le> length ts \<and> length ts \<le> 5"
    by blast
  have "sdoWritten (snd (setDriveStateViaSdo (ok, current) sdoWriteOk requested s)) =
                sdoWritten s @ map (\<lambda>t. setStateTransition t []) ts"
    by (simp add: setDriveStateViaSdo_def ts(1) stateTransitionsViaSdo_written[OF ts(2)])
  with ts(3,4) show ?thesis by blast
qed

theorem transition_paths_witness:
  "OperationEnabled \<noteq> Fault \<and> OperationEnabled \<noteq> OtherDriveState \<and> SwitchOnDisabled \<noteq> OtherDriveState
   \<and> (\<exists>ts. sdoWritten (snd (setDriveStateViaSdo (True, SwitchOnDisabled) demoSdoWriteOk
                               OperationEnabled demoMaxon)) =
                sdoWritten demoMaxon @ map (\<lambda>t. setStateTransition t []) ts
           \<and> transitionsOf (fst (getNextStateTransitionControlword OperationEnabled
                                    SwitchOnDisabled demoMaxon)) = take 1 ts
           \<and> 1 \<le> length ts \<and> length ts \<le> 5)"
  using transition_paths[of OperationEnabled SwitchOnDisabled True demoSdoWriteOk demoMaxon]
  by simp

text \<open>
  The claim C3 as stated fails twice: from Fault to QuickStopActive the service channel sends
  five transitions (15, 2, 3, 4, 11), and for the requested state Fault, distinct from
  SwitchOnDisabled, neither channel issues any transition.
\<close>

theorem transition_paths_counterexample:
  "Fault \<noteq> QuickStopActive
   \<and> sdoWritten (snd (setDriveStateViaSdo (True, Fault) demoSdoWriteOk QuickStopActive demoMaxon)) =
       [[SetStateTransition T15], [SetStateTransition T2], [SetStateTransition T3],
        [SetStateTransition T4], [SetStateTransition T11]]
   \<and> SwitchOnDisabled \<noteq> Fault
   \<and> sdoWritten (snd (setDriveStateViaSdo (True, SwitchOnDisabled) demoSdoWriteOk Fault demoMaxon)) = []
   \<and> transitionsOf (fst (getNextStateTransitionControlword Fault SwitchOnDisabled demoMaxon)) = []"
  by (simp add: setDriveStateViaSdo_def transitionPathViaSdo_def stateTransitionViaSdo_def
        getNextStateTransitionControlword_def setAllFalse_def setStateTransition_def
        addErrorToReading_def logLine_def demoMaxon_def demoSdoWriteOk_def)

text \<open>A request for Fault has no mapping on either channel, whatever the current state.\<close>

lemma request_for_Fault:
  "transitionPathViaSdo Fault current = None
   \<and> transitionsOf (fst (getNextStateTransitionControlword Fault current s)) = []"
  by (simp add: transitionPathViaSdo_def getNextStateTransitionControlword_def setAllFalse_def)

text \<open>
  The only caller of getNextStateTransitionControlword is engagePdoStateMachine, and it calls
  the table only when the current drive state differs from the target. Off the diagonal the
  table never logs "drive state has already been reached", so an evaluation of the lifecycle
  state machine never does.
\<close>

lemma getNext_differing_states:
  "requested \<noteq> current \<Longrightarrow>
   count_list (logged (snd (getNextStateTransitionControlword requested current s)))
     ErrDriveStateAlreadyReached =
   count_list (logged s) ErrDriveStateAlreadyReached"
  by (cases requested; cases current;
      simp add: getNextStateTransitionControlword_def notImplemented_def addErrorToReading_def
        logLine_def)

lemma engage_on_target:
  assumes "getDriveState (reading s) = targetDriveState s"
  shows "reading (engagePdoStateMachine now now' s) = reading s"
    and "controlword (engagePdoStateMachine now now' s) = controlword s"
    and "sdoWritten (engagePdoStateMachine now now' s) = sdoWritten s"
    and "rxPdoWritten (engagePdoStateMachine now now' s) = rxPdoWritten s"
    and "logged (engagePdoStateMachine now now' s) =
           logged s @ [CoutPdoStateMachineEngaged, CoutConductStateChange (conductStateChange s),
                       CoutCurrentDriveState (targetDriveState s), CoutCorrectTargetStateReached]"
  using assms by (simp_all add: engagePdoStateMachine_def Let_def logLine_def)

lemma engage_never_already_reached:
  "count_list (logged (engagePdoStateMachine now now' s)) ErrDriveStateAlreadyReached =
   count_list (logged s) ErrDriveStateAlreadyReached"
proof (cases "getDriveState (reading s) = targetDriveState s")
  case True
  from engage_on_target(5)[OF True] show ?thesis by simp
next
  case False
  then have ne: "targetDriveState s \<noteq> getDriveState (reading s)" by simp
  show ?thesis
    using False getNext_differing_states[OF ne]
    by (simp add: engagePdoStateMachine_def Let_def case_prod_beta logLine_def)
qed

text \<open>
  C4, as amended: when the requested drive state is the current one, neither channel issues a
  state transition, and the request raises no "already reached" condition. On the cyclic
  channel the evaluation counts the read as a confirmation: the Reading, with its errors, and
  the control word stay as they are, and no evaluation ever logs "drive state has already been
  reached". The entry of the transition table for equal states, which asks for no transition
  and adds PdoStateTransitionError, is what getNextStateTransitionControlword gives when it is
  called with equal states, which the cyclic channel does not do. The service channel sends
  nothing; for the five states that the switch names as targets it raises no error and keeps
  the success of the status read, and for Fault and unnamed states it adds
  SdoStateTransitionError ("State Transition not implemented") and returns false.
\<close>

theorem self_request:
  "(getDriveState (reading s) = targetDriveState s \<longrightarrow>
      reading (engagePdoStateMachine now now' s) = reading s
      \<and> controlword (engagePdoStateMachine now now' s) = controlword s
      \<and> logged (engagePdoStateMachine now now' s) =
          logged s @ [CoutPdoStateMachineEngaged, CoutConductStateChange (conductStateChange s),
                      CoutCurrentDriveState (targetDriveState s), CoutCorrectTargetStateReached])
   \<and> count_list (logged (engagePdoStateMachine now now' s)) ErrDriveStateAlreadyReached =
       count_list (logged s) ErrDriveStateAlreadyReached
   \<and> transitionsOf (fst (getNextStateTransitionControlword d d s)) = []
   \<and> errors (reading (snd (getNextStateTransitionControlword d d s))) =
       errors (reading s) @ [PdoStateTransitionError]
   \<and> (d \<noteq> Fault \<and> d \<noteq> OtherDriveState \<longrightarrow>
        setDriveStateViaSdo (ok, d) sdoWriteOk d s = (ok, s))
   \<and> (d = Fault \<or> d = OtherDriveState \<longrightarrow>
        setDriveStateViaSdo (ok, d) sdoWriteOk d s =
          (False, addErrorToReading SdoStateTransitionError
                    (logLine ErrSdoStateTransitionNotImplemented s)))"
proof -
  have table: "transitionsOf (fst (getNextStateTransitionControlword d d s)) = []
     \<and> errors (reading (snd (getNextStateTransitionControlword d d s))) =
         errors (reading s) @ [PdoStateTransitionError]"
    by (cases d;
        simp add: getNextStateTransitionControlword_def setAllFalse_def alreadyReached_def
          addErrorToReading_def addError_def logLine_def)
  have sdo: "(d \<noteq> Fault \<and> d \<noteq> OtherDriveState \<longrightarrow>
        setDriveStateViaSdo (ok, d) sdoWriteOk d s = (ok, s))
   \<and> (d = Fault \<or> d = OtherDriveState \<longrightarrow>
        setDriveStateViaSdo (ok, d) sdoWriteOk d s =
          (False, addErrorToReading SdoStateTransitionError
                    (logLine ErrSdoStateTransitionNotImplemented s)))"
    by (cases d; simp add: setDriveStateViaSdo_def transitionPathViaSdo_def)
  from table sdo engage_on_target(1,2,5)[of s now now']
       engage_never_already_reached[of now now' s]
  show ?thesis by blast
qed

theorem self_request_witness:
  "getDriveState (reading demoMaxon) = targetDriveState demoMaxon
   \<and> reading (engagePdoStateMachine 0 0 demoMaxon) = reading demoMaxon
   \<and> controlword (engagePdoStateMachine 0 0 demoMaxon) = controlword demoMaxon
   \<and> (SwitchedOn \<noteq> Fault \<and> SwitchedOn \<noteq> OtherDriveState)
   \<and> setDriveStateViaSdo (True, SwitchedOn) demoSdoWriteOk SwitchedOn demoMaxon = (True, demoMaxon)
   \<and> (Fault = Fault \<or> Fault = OtherDriveState)
   \<and> fst (setDriveStateViaSdo (True, Fault) demoSdoWriteOk Fault demoMaxon) = False"
proof -
  have h: "getDriveState (reading demoMaxon) = targetDriveState demoMaxon"
    by (simp add: demoMaxon_def)
  from self_request[of demoMaxon 0 0 SwitchedOn True demoSdoWriteOk, THEN conjunct1] h
  have a: "reading (engagePdoStateMachine 0 0 demoMaxon) = reading demoMaxon"
    "controlword (engagePdoStateMachine 0 0 demoMaxon) = controlword demoMaxon"
    by blast+
  from self_request[of demoMaxon 0 0 SwitchedOn True demoSdoWriteOk]
  have b: "setDriveStateViaSdo (True, SwitchedOn) demoSdoWriteOk SwitchedOn demoMaxon =
             (True, demoMaxon)"
    by simp
  from self_request[of demoMaxon 0 0 Fault True demoSdoWriteOk]
  have c: "fst (setDriveStateViaSdo (True, Fault) demoSdoWriteOk Fault demoMaxon) = False"
    by simp
  from h a b c show ?thesis by simp
qed

text \<open>
  The claim C4 as stated fails on both channels. Asked for SwitchOnDisabled while the drive is
  in SwitchOnDisabled, setDriveStateViaSdo returns the success of the status read and leaves
  the object as it was, with no error in the Reading and nothing logged. Over the cyclic
  channel, the same request followed by a read of SwitchOnDisabled and a write is evaluated
  once; the Reading has no error and the log has the four lines of the evaluation and no
  "already reached".
\<close>

theorem self_request_counterexample:
  "setDriveStateViaSdo (True, SwitchOnDisabled) demoSdoWriteOk SwitchOnDisabled demoMaxon =
     (True, demoMaxon)
   \<and> errors (reading demoMaxon) = [] \<and> logged demoMaxon = []
   \<and> errors (reading (run rawPassthrough
        [SetDriveStateViaPdo SwitchOnDisabled 0, UpdateRead (demoTxPdo SwitchOnDisabled),
         UpdateWrite 1 1] demoMaxon)) = []
   \<and> logged (run rawPassthrough
        [SetDriveStateViaPdo SwitchOnDisabled 0, UpdateRead (demoTxPdo SwitchOnDisabled),
         UpdateWrite 1 1] demoMaxon) =
       [CoutPdoStateMachineEngaged, CoutConductStateChange True,
        CoutCurrentDriveState SwitchOnDisabled, CoutCorrectTargetStateReached]
   \<and> rxPdoWritten (run rawPassthrough
        [SetDriveStateViaPdo SwitchOnDisabled 0, UpdateRead (demoTxPdo SwitchOnDisabled),
         UpdateWrite 1 1] demoMaxon) = [RxPdoStandardFrame CyclicSyncPosition []]"
proof -
  have sdo: "setDriveStateViaSdo (True, SwitchOnDisabled) demoSdoWriteOk SwitchOnDisabled demoMaxon =
     (True, demoMaxon)"
    by (simp add: setDriveStateViaSdo_def transitionPathViaSdo_def)
  have d: "errors (reading demoMaxon) = [] \<and> logged demoMaxon = []"
    by (simp add: demoMaxon_def)
  have pdo: "errors (reading (run rawPassthrough
        [SetDriveStateViaPdo SwitchOnDisabled 0, UpdateRead (demoTxPdo SwitchOnDisabled),
         UpdateWrite 1 1] demoMaxon)) = []
   \<and> logged (run rawPassthrough
        [SetDriveStateViaPdo SwitchOnDisabled 0, UpdateRead (demoTxPdo SwitchOnDisabled),
         UpdateWrite 1 1] demoMaxon) =
       [CoutPdoStateMachineEngaged, CoutConductStateChange True,
        CoutCurrentDriveState SwitchOnDisabled, CoutCorrectTargetStateReached]
   \<and> rxPdoWritten (run rawPassthrough
        [SetDriveStateViaPdo SwitchOnDisabled 0, UpdateRead (demoTxPdo SwitchOnDisabled),
         UpdateWrite 1 1] demoMaxon) = [RxPdoStandardFrame CyclicSyncPosition []]"
    by (simp add: demo_defs op_defs)
  from sdo d pdo show ?thesis by blast
qed

subsection \<open>State requests over the cyclic channel\<close>

text \<open>
  C9: for every target drive state, every object, every clock reading and whatever the other
  threads would do next, setDriveStateViaPdo without waiting returns true at once, and the
  object differs from the one it was called on only in the success flag (false), the
  pending-change flag (true), the target state (the one requested), the fresh-read flag
  (false) and the time point of the change: no control word has been chosen or written.
\<close>

theorem setDriveStateViaPdo_no_wait:
  "setDriveStateViaPdo driveState False now start schedule s =
     Some (True, s\<lparr>stateChangeSuccessful := False, conductStateChange := True,
                   targetDriveState := driveState, hasRead := False,
                   driveStateChangeTimePoint := now\<rparr>)"
  by (simp add: setDriveStateViaPdo_def armStateChange_def)

lemma waitForStateChange_timeout:
  "keepsWaiting start pre s \<Longrightarrow>
   \<not> stateChangeSuccessful (afterSleeps pre s) \<Longrightarrow>
   t - start > driveStateChangeMaxTimeout (configuration (afterSleeps pre s)) \<Longrightarrow>
   waitForStateChange start (pre @ (t, others) # rest) s = Some (False, afterSleeps pre s)"
  by (induction start pre s rule: keepsWaiting.induct) simp_all

lemma waitForStateChange_success:
  "keepsWaiting start pre s \<Longrightarrow>
   stateChangeSuccessful (afterSleeps pre s) \<Longrightarrow>
   waitForStateChange start (pre @ rest) s = Some (True, afterSleeps pre s)"
proof (induction start pre s rule: keepsWaiting.induct)
  case (1 start s)
  then show ?case by (cases rest) auto
next
  case (2 start now others schedule s)
  then show ?case by simp
qed

text \<open>
  C6, as amended: the waiting loop of setDriveStateViaPdo tests the success flag before the
  clock. When it has kept waiting through some polls and reaches a poll at which the success
  flag is still unset and more than the configured maximum timeout has passed since the start,
  the caller receives false, and the object is the one the other threads produced up to that
  poll: the timeout path changes no member, so the pending-change flag is what the last cycle
  made it. When it reaches a poll at which the success flag is set, the caller receives true,
  whatever time has passed.
\<close>

theorem setDriveStateViaPdo_wait:
  "(keepsWaiting start pre (armStateChange driveState now s)
      \<and> \<not> stateChangeSuccessful (afterSleeps pre (armStateChange driveState now s))
      \<and> t - start >
           driveStateChangeMaxTimeout
             (configuration (afterSleeps pre (armStateChange driveState now s)))
    \<longrightarrow> setDriveStateViaPdo driveState True now start (pre @ (t, others) # rest) s =
          Some (False, afterSleeps pre (armStateChange driveState now s)))
   \<and> (keepsWaiting start pre (armStateChange driveState now s)
      \<and> stateChangeSuccessful (afterSleeps pre (armStateChange driveState now s))
    \<longrightarrow> setDriveStateViaPdo driveState True now start (pre @ rest) s =
          Some (True, afterSleeps pre (armStateChange driveState now s)))"
  using waitForStateChange_timeout[of start pre "armStateChange driveState now s" t others rest]
        waitForStateChange_success[of start pre "armStateChange driveState now s" rest]
  by (simp add: setDriveStateViaPdo_def)

theorem setDriveStateViaPdo_wait_witness:
  "(keepsWaiting 1 [(1000, updateRead (demoTxPdo ReadyToSwitchOn))]
      (armStateChange OperationEnabled 0 demoMaxon)
    \<and> \<not> stateChangeSuccessful (afterSleeps [(1000, updateRead (demoTxPdo ReadyToSwitchOn))]
           (armStateChange OperationEnabled 0 demoMaxon))
    \<and> 300002 - 1 > driveStateChangeMaxTimeout (configuration
         (afterSleeps [(1000, updateRead (demoTxPdo ReadyToSwitchOn))]
           (armStateChange OperationEnabled 0 demoMaxon))))
   \<and> setDriveStateViaPdo OperationEnabled True 0 1
         ([(1000, updateRead (demoTxPdo ReadyToSwitchOn))] @ [(300002, id)]) demoMaxon =
       Some (False, afterSleeps [(1000, updateRead (demoTxPdo ReadyToSwitchOn))]
                      (armStateChange OperationEnabled 0 demoMaxon))
   \<and> conductStateChange (afterSleeps [(1000, updateRead (demoTxPdo ReadyToSwitchOn))]
                      (armStateChange OperationEnabled 0 demoMaxon))
   \<and> (keepsWaiting 1
        [(1000, run rawPassthrough
                  [UpdateRead (demoTxPdo OperationEnabled), UpdateWrite 1100 1100,
                   UpdateRead (demoTxPdo OperationEnabled), UpdateWrite 1200 1200])]
        (armStateChange OperationEnabled 0 demoMaxon)
      \<and> stateChangeSuccessful (afterSleeps
        [(1000, run rawPassthrough
                  [UpdateRead (demoTxPdo OperationEnabled), UpdateWrite 1100 1100,
                   UpdateRead (demoTxPdo OperationEnabled), UpdateWrite 1200 1200])]
        (armStateChange OperationEnabled 0 demoMaxon)))
   \<and> map_option fst (setDriveStateViaPdo OperationEnabled True 0 1
        ([(1000, run rawPassthrough
                  [UpdateRead (demoTxPdo OperationEnabled), UpdateWrite 1100 1100,
                   UpdateRead (demoTxPdo OperationEnabled), UpdateWrite 1200 1200])]
         @ [(2100, id)]) demoMaxon) = Some True"
proof -
  let ?pre = "[(1000, updateRead (demoTxPdo ReadyToSwitchOn))]"
  let ?pre' = "[(1000, run rawPassthrough
                  [UpdateRead (demoTxPdo OperationEnabled), UpdateWrite 1100 1100,
                   UpdateRead (demoTxPdo OperationEnabled), UpdateWrite 1200 1200])]"
  let ?s1 = "armStateChange OperationEnabled 0 demoMaxon"
  have a: "keepsWaiting 1 ?pre ?s1
    \<and> \<not> stateChangeSuccessful (afterSleeps ?pre ?s1)
    \<and> 300002 - 1 > driveStateChangeMaxTimeout (configuration (afterSleeps ?pre ?s1))"
    by (simp add: demo_defs op_defs)
  have d: "conductStateChange (afterSleeps ?pre ?s1)"
    by (simp add: demo_defs op_defs)
  have b: "keepsWaiting 1 ?pre' ?s1 \<and> stateChangeSuccessful (afterSleeps ?pre' ?s1)"
    by (simp add: demo_defs op_defs)
  from setDriveStateViaPdo_wait[of 1 ?pre OperationEnabled 0 demoMaxon 300002 id "[]",
         THEN conjunct1] a
  have r1: "setDriveStateViaPdo OperationEnabled True 0 1 (?pre @ [(300002, id)]) demoMaxon =
       Some (False, afterSleeps ?pre ?s1)"
    by blast
  from setDriveStateViaPdo_wait[of 1 ?pre' OperationEnabled 0 demoMaxon 0 id "[(2100, id)]",
         THEN conjunct2] b
  have "setDriveStateViaPdo OperationEnabled True 0 1 (?pre' @ [(2100, id)]) demoMaxon =
       Some (True, afterSleeps ?pre' ?s1)"
    by blast
  then have r2: "map_option fst (setDriveStateViaPdo OperationEnabled True 0 1
        (?pre' @ [(2100, id)]) demoMaxon) = Some True"
    by simp
  from a d b r1 r2 show ?thesis by blast
qed

text \<open>
  The claim C6 as stated fails when the change completes after the timeout has elapsed and
  before the next poll. The request starts at clock 0 with a maximum timeout of 300000. The
  poll at 299500 finds the change pending and the timeout not elapsed. During the sleep that
  follows, the bus cycle confirms the target state twice, at 300100 and at 300400: after the
  first confirmation, past the timeout, the change is still incomplete. The poll at 300600
  finds the success flag set, and the caller receives true.
\<close>

theorem setDriveStateViaPdo_late_completion:
  "driveStateChangeMaxTimeout (configuration demoMaxon) = 300000
   \<and> \<not> stateChangeSuccessful
         (run rawPassthrough
            [UpdateRead (demoTxPdo OperationEnabled), UpdateWrite 300100 300100,
             UpdateRead (demoTxPdo OperationEnabled)]
            (armStateChange OperationEnabled 0 demoMaxon))
   \<and> map_option fst
        (setDriveStateViaPdo OperationEnabled True 0 0
           [(299500, run rawPassthrough
                       [UpdateRead (demoTxPdo OperationEnabled), UpdateWrite 300100 300100,
                        UpdateRead (demoTxPdo OperationEnabled), UpdateWrite 300400 300400]),
            (300600, id)]
           demoMaxon) = Some True"
  by (simp add: setDriveStateViaPdo_def demo_defs op_defs)

subsection \<open>The lifecycle members under each operation\<close>

lemma lifecycle_logLine:
  "l \<noteq> CoutPdoStateMachineEngaged \<Longrightarrow> l \<noteq> CoutCorrectTargetStateReached \<Longrightarrow>
   lifecycle (logLine l s) = lifecycle s"
  by (simp add: lifecycle_def logLine_def evaluations_def confirmations_def)

lemma lifecycle_addErrorToReading: "lifecycle (addErrorToReading e s) = lifecycle s"
  by (simp add: lifecycle_def addErrorToReading_def evaluations_def confirmations_def)

lemma lifecycle_getNext:
  "lifecycle (snd (getNextStateTransitionControlword req cur s)) = lifecycle s"
  by (cases req; cases cur;
      simp add: getNextStateTransitionControlword_def alreadyReached_def notImplemented_def
        lifecycle_logLine lifecycle_addErrorToReading)

lemma lifecycle_emitFrame: "lifecycle (emitFrame s) = lifecycle s"
  by (cases "rxPdoTypeEnum (configuration s)";
      simp add: emitFrame_def Let_def lifecycle_logLine lifecycle_addErrorToReading;
      simp add: writeRxPdo_def lifecycle_def evaluations_def confirmations_def)

lemma lifecycle_stageCommand: "lifecycle (stageCommand conv command s) = lifecycle s"
  by (simp add: stageCommand_def Let_def lifecycle_logLine;
      simp add: lifecycle_def evaluations_def confirmations_def logLine_def)

lemma lifecycle_stateTransitionViaSdo:
  "lifecycle (snd (stateTransitionViaSdo wr t s)) = lifecycle s"
  by (cases t;
      simp add: stateTransitionViaSdo_def lifecycle_logLine lifecycle_addErrorToReading;
      simp add: lifecycle_def evaluations_def confirmations_def)

lemma lifecycle_stateTransitionsViaSdo:
  "lifecycle (snd (stateTransitionsViaSdo wr ts (ok, s))) = lifecycle s"
proof (induction ts arbitrary: ok s)
  case Nil
  show ?case by simp
next
  case (Cons t ts)
  show ?case
    using lifecycle_stateTransitionViaSdo[of wr t s] Cons.IH
    by (simp add: case_prod_beta)
qed

lemma lifecycle_setDriveStateViaSdo:
  "lifecycle (snd (setDriveStateViaSdo statusReply wr d s)) = lifecycle s"
  by (cases statusReply)
     (simp add: setDriveStateViaSdo_def lifecycle_stateTransitionsViaSdo lifecycle_logLine
        lifecycle_addErrorToReading split: option.split)

lemma lifecycle_updateRead:
  "lifecycle (updateRead txPdo s) =
     (conductStateChange s, True, stateChangeSuccessful s,
      numberOfSuccessfulTargetStateReadings s,
      minNumberOfSuccessfulTargetStateReadings (configuration s),
      evaluations s, confirmations s)"
  by (cases "txPdoTypeEnum (configuration s)";
      simp add: updateRead_def Let_def lifecycle_def evaluations_def confirmations_def
        logLine_def)

lemma lifecycle_armStateChange:
  "lifecycle (armStateChange d now s) =
     (True, False, False, numberOfSuccessfulTargetStateReadings s,
      minNumberOfSuccessfulTargetStateReadings (configuration s),
      evaluations s, confirmations s)"
  by (simp add: armStateChange_def lifecycle_def evaluations_def confirmations_def)

lemma lifecycle_engagePdoStateMachine:
  "lifecycle (engagePdoStateMachine now now' s) =
     (if getDriveState (reading s) = targetDriveState s then
        (if numberOfSuccessfulTargetStateReadings s + 1
              \<ge> minNumberOfSuccessfulTargetStateReadings (configuration s)
         then (False, hasRead s, True, 0,
               minNumberOfSuccessfulTargetStateReadings (configuration s),
               evaluations s + 1, confirmations s + 1)
         else (conductStateChange s, False, stateChangeSuccessful s,
               numberOfSuccessfulTargetStateReadings s + 1,
               minNumberOfSuccessfulTargetStateReadings (configuration s),
               evaluations s + 1, confirmations s + 1))
      else (conductStateChange s, False, stateChangeSuccessful s,
            numberOfSuccessfulTargetStateReadings s,
            minNumberOfSuccessfulTargetStateReadings (configuration s),
            evaluations s + 1, confirmations s))"
proof -
  define s2 where "s2 = logLine (CoutCurrentDriveState (getDriveState (reading s)))
      (logLine (CoutConductStateChange (conductStateChange s))
         (logLine CoutPdoStateMachineEngaged s))"
  have s2: "lifecycle s2 =
      (conductStateChange s, hasRead s, stateChangeSuccessful s,
       numberOfSuccessfulTargetStateReadings s,
       minNumberOfSuccessfulTargetStateReadings (configuration s),
       evaluations s + 1, confirmations s)"
    by (simp add: s2_def lifecycle_def logLine_def evaluations_def confirmations_def)
  have g: "lifecycle (snd (getNextStateTransitionControlword (targetDriveState s)
              (getDriveState (reading s)) s2)) = lifecycle s2"
    by (rule lifecycle_getNext)
  have upd: "lifecycle (x\<lparr>controlword := cw, driveStateChangeTimePoint := tp, hasRead := False\<rparr>)
      = (case lifecycle x of (c, h, r) \<Rightarrow> (c, False, r))" for x cw tp
    by (simp add: lifecycle_def evaluations_def confirmations_def)
  have e: "engagePdoStateMachine now now' s =
     (if getDriveState (reading s) = targetDriveState s then
        (let s3 = (logLine CoutCorrectTargetStateReached s2)
                       \<lparr>numberOfSuccessfulTargetStateReadings :=
                          numberOfSuccessfulTargetStateReadings s2 + 1\<rparr>
            in if numberOfSuccessfulTargetStateReadings s3
                    \<ge> minNumberOfSuccessfulTargetStateReadings (configuration s3)
               then s3\<lparr>conductStateChange := False,
                       numberOfSuccessfulTargetStateReadings := 0,
                       stateChangeSuccessful := True\<rparr>
               else s3\<lparr>hasRead := False\<rparr>)
      else if now - driveStateChangeTimePoint s > driveStateChangeMinTimeout (configuration s) then
        (snd (getNextStateTransitionControlword (targetDriveState s)
              (getDriveState (reading s)) s2))
          \<lparr>controlword := fst (getNextStateTransitionControlword (targetDriveState s)
              (getDriveState (reading s)) s2),
            driveStateChangeTimePoint := now', hasRead := False\<rparr>
      else s2\<lparr>hasRead := False\<rparr>)"
    by (simp add: engagePdoStateMachine_def Let_def case_prod_beta s2_def logLine_def)
  show ?thesis
  proof (cases "getDriveState (reading s) = targetDriveState s")
    case True
    with s2 show ?thesis
      by (simp add: e Let_def lifecycle_def logLine_def evaluations_def confirmations_def)
  next
    case False
    show ?thesis
    proof (cases "now - driveStateChangeTimePoint s > driveStateChangeMinTimeout (configuration s)")
      case True
      with False show ?thesis by (simp add: e upd g s2)
    next
      case f2: False
      with False s2 show ?thesis
        by (simp add: e lifecycle_def evaluations_def confirmations_def)
    qed
  qed
qed

lemma lifecycle_updateWrite:
  "lifecycle (updateWrite now now' s) =
     (if modeOfOperation s \<noteq> NA \<and> conductStateChange s \<and> hasRead s
      then lifecycle (engagePdoStateMachine now now' s) else lifecycle s)"
  by (simp add: updateWrite_def lifecycle_emitFrame lifecycle_logLine;
      simp add: lifecycle_def logLine_def evaluations_def confirmations_def)

lemma lifecycle_fields:
  "lifecycle s = (c, h, r, n, m, e, k) \<Longrightarrow>
     conductStateChange s = c \<and> hasRead s = h \<and> stateChangeSuccessful s = r
     \<and> numberOfSuccessfulTargetStateReadings s = n
     \<and> minNumberOfSuccessfulTargetStateReadings (configuration s) = m
     \<and> evaluations s = e \<and> confirmations s = k"
  by (simp add: lifecycle_def)

lemma lifecycle_call:
  assumes "lifecycle s = (c0, h0, r0, n0, m0, e0, k0)"
  shows "lifecycle (call conv c s) =
     (case c of
        UpdateRead txPdo \<Rightarrow> (c0, True, r0, n0, m0, e0, k0)
      | UpdateWrite now now' \<Rightarrow>
          (if modeOfOperation s \<noteq> NA \<and> c0 \<and> h0 then
             (if getDriveState (reading s) = targetDriveState s then
                (if n0 + 1 \<ge> m0 then (False, h0, True, 0, m0, e0 + 1, k0 + 1)
                 else (c0, False, r0, n0 + 1, m0, e0 + 1, k0 + 1))
              else (c0, False, r0, n0, m0, e0 + 1, k0))
           else (c0, h0, r0, n0, m0, e0, k0))
      | SetDriveStateViaPdo d now \<Rightarrow> (True, False, False, n0, m0, e0, k0)
      | _ \<Rightarrow> (c0, h0, r0, n0, m0, e0, k0))"
  using lifecycle_fields[OF assms]
  by (cases c)
     (simp_all add: lifecycle_updateWrite lifecycle_stageCommand lifecycle_setDriveStateViaSdo
        lifecycle_updateRead lifecycle_armStateChange lifecycle_engagePdoStateMachine assms)

lemma call_evaluations:
  "evaluations (call conv c s)
     + (if hasRead (call conv c s) \<and> conductStateChange (call conv c s) then 1 else 0)
   \<le> evaluations s + (if hasRead s \<and> conductStateChange s then 1 else 0)
        + (if isUpdateRead c then 1 else 0)"
proof -
  obtain c0 h0 r0 n0 m0 e0 k0 where l0: "lifecycle s = (c0, h0, r0, n0, m0, e0, k0)"
    by (cases "lifecycle s") auto
  obtain c1 h1 r1 n1 m1 e1 k1 where
    l1: "lifecycle (call conv c s) = (c1, h1, r1, n1, m1, e1, k1)"
    by (cases "lifecycle (call conv c s)") auto
  from lifecycle_call[OF l0, of conv c] l1
  have "e1 + (if h1 \<and> c1 then 1 else 0) \<le> e0 + (if h0 \<and> c0 then 1 else 0)
          + (if isUpdateRead c then 1 else 0)"
    by (cases c) (auto split: if_splits)
  with lifecycle_fields[OF l0] lifecycle_fields[OF l1] show ?thesis by (simp split: if_splits)
qed

lemma run_evaluations:
  "evaluations (run conv cs s)
     + (if hasRead (run conv cs s) \<and> conductStateChange (run conv cs s) then 1 else 0)
   \<le> evaluations s + (if hasRead s \<and> conductStateChange s then 1 else 0) + readCycles cs"
proof (induction cs arbitrary: s)
  case Nil
  show ?case by (simp add: readCycles_def)
next
  case (Cons c cs)
  have r: "readCycles (c # cs) = (if isUpdateRead c then 1 else 0) + readCycles cs"
    by (simp add: readCycles_def)
  from Cons.IH[of "call conv c s"] call_evaluations[of conv c s] show ?case
    unfolding r run.simps by linarith
qed

text \<open>
  While the success flag is unset, the confirmations still missing are the configured minimum
  less the counter. No call lowers the sum of the confirmations logged and the confirmations
  missing.
\<close>

lemma call_confirmations:
  "confirmations s
     + (if stateChangeSuccessful s then 0
        else minNumberOfSuccessfulTargetStateReadings (configuration s)
               - numberOfSuccessfulTargetStateReadings s)
   \<le> confirmations (call conv c s)
     + (if stateChangeSuccessful (call conv c s) then 0
        else minNumberOfSuccessfulTargetStateReadings (configuration (call conv c s))
               - numberOfSuccessfulTargetStateReadings (call conv c s))"
proof -
  obtain c0 h0 r0 n0 m0 e0 k0 where l0: "lifecycle s = (c0, h0, r0, n0, m0, e0, k0)"
    by (cases "lifecycle s") auto
  obtain c1 h1 r1 n1 m1 e1 k1 where
    l1: "lifecycle (call conv c s) = (c1, h1, r1, n1, m1, e1, k1)"
    by (cases "lifecycle (call conv c s)") auto
  from lifecycle_call[OF l0, of conv c] l1
  have "k0 + (if r0 then 0 else m0 - n0) \<le> k1 + (if r1 then 0 else m1 - n1)"
    by (cases c) (auto split: if_splits)
  with lifecycle_fields[OF l0] lifecycle_fields[OF l1] show ?thesis by (simp split: if_splits)
qed

lemma run_confirmations:
  "confirmations s
     + (if stateChangeSuccessful s then 0
        else minNumberOfSuccessfulTargetStateReadings (configuration s)
               - numberOfSuccessfulTargetStateReadings s)
   \<le> confirmations (run conv cs s)
     + (if stateChangeSuccessful (run conv cs s) then 0
        else minNumberOfSuccessfulTargetStateReadings (configuration (run conv cs s))
               - numberOfSuccessfulTargetStateReadings (run conv cs s))"
proof (induction cs arbitrary: s)
  case Nil
  show ?case by simp
next
  case (Cons c cs)
  from Cons.IH[of "call conv c s"] call_confirmations[of s conv c] show ?case
    unfolding run.simps by linarith
qed

subsection \<open>Confirming reads and lifecycle evaluations\<close>

text \<open>
  C1, as amended: an evaluation of the lifecycle state machine that finds the drive in the
  target state increments the confirmation counter, and exactly when the incremented counter
  reaches the configured minimum it marks the change complete (success flag set, pending flag
  cleared, counter reset to zero); an evaluation that finds another state leaves the counter,
  the success flag and the pending flag as they are, so the counter is not reset by a
  non-confirming read. For a request that is armed while the counter is zero and is not armed
  again, completion is never signaled after fewer than the configured minimum confirming
  evaluations; they need not be consecutive.
\<close>

theorem confirmation_counter:
  "(getDriveState (reading s) = targetDriveState s
      \<and> minNumberOfSuccessfulTargetStateReadings (configuration s)
           \<le> numberOfSuccessfulTargetStateReadings s + 1
    \<longrightarrow> stateChangeSuccessful (engagePdoStateMachine now now' s)
        \<and> \<not> conductStateChange (engagePdoStateMachine now now' s)
        \<and> numberOfSuccessfulTargetStateReadings (engagePdoStateMachine now now' s) = 0)
   \<and> (getDriveState (reading s) = targetDriveState s
      \<and> numberOfSuccessfulTargetStateReadings s + 1
           < minNumberOfSuccessfulTargetStateReadings (configuration s)
    \<longrightarrow> numberOfSuccessfulTargetStateReadings (engagePdoStateMachine now now' s) =
          numberOfSuccessfulTargetStateReadings s + 1
        \<and> stateChangeSuccessful (engagePdoStateMachine now now' s) = stateChangeSuccessful s
        \<and> conductStateChange (engagePdoStateMachine now now' s) = conductStateChange s)
   \<and> (getDriveState (reading s) \<noteq> targetDriveState s
    \<longrightarrow> numberOfSuccessfulTargetStateReadings (engagePdoStateMachine now now' s) =
          numberOfSuccessfulTargetStateReadings s
        \<and> stateChangeSuccessful (engagePdoStateMachine now now' s) = stateChangeSuccessful s
        \<and> conductStateChange (engagePdoStateMachine now now' s) = conductStateChange s)
   \<and> (numberOfSuccessfulTargetStateReadings s = 0 \<and> rearms cs = 0
      \<and> stateChangeSuccessful (run conv cs (armStateChange driveState t s))
    \<longrightarrow> confirmations s + minNumberOfSuccessfulTargetStateReadings (configuration s)
        \<le> confirmations (run conv cs (armStateChange driveState t s)))"
proof -
  obtain c1 h1 r1 n1 m1 e1 k1 where
    l1: "lifecycle (engagePdoStateMachine now now' s) = (c1, h1, r1, n1, m1, e1, k1)"
    by (cases "lifecycle (engagePdoStateMachine now now' s)") auto
  note f1 = lifecycle_fields[OF l1]
  from l1 have step:
    "(getDriveState (reading s) = targetDriveState s
        \<and> minNumberOfSuccessfulTargetStateReadings (configuration s)
             \<le> numberOfSuccessfulTargetStateReadings s + 1
      \<longrightarrow> r1 \<and> \<not> c1 \<and> n1 = 0)
     \<and> (getDriveState (reading s) = targetDriveState s
        \<and> numberOfSuccessfulTargetStateReadings s + 1
             < minNumberOfSuccessfulTargetStateReadings (configuration s)
      \<longrightarrow> n1 = numberOfSuccessfulTargetStateReadings s + 1
          \<and> r1 = stateChangeSuccessful s \<and> c1 = conductStateChange s)
     \<and> (getDriveState (reading s) \<noteq> targetDriveState s
      \<longrightarrow> n1 = numberOfSuccessfulTargetStateReadings s
          \<and> r1 = stateChangeSuccessful s \<and> c1 = conductStateChange s)"
    unfolding lifecycle_engagePdoStateMachine by (auto split: if_splits)
  have armed: "\<not> stateChangeSuccessful (armStateChange driveState t s)"
    "numberOfSuccessfulTargetStateReadings (armStateChange driveState t s) =
       numberOfSuccessfulTargetStateReadings s"
    "configuration (armStateChange driveState t s) = configuration s"
    "confirmations (armStateChange driveState t s) = confirmations s"
    by (simp_all add: armStateChange_def confirmations_def)
  have trace: "numberOfSuccessfulTargetStateReadings s = 0 \<and> rearms cs = 0
      \<and> stateChangeSuccessful (run conv cs (armStateChange driveState t s))
    \<longrightarrow> confirmations s + minNumberOfSuccessfulTargetStateReadings (configuration s)
        \<le> confirmations (run conv cs (armStateChange driveState t s))"
    using run_confirmations[of "armStateChange driveState t s" conv cs] armed
    by (auto split: if_splits)
  from step f1 trace show ?thesis by simp
qed

theorem confirmation_counter_witness:
  "(getDriveState (reading (demoMaxon\<lparr>numberOfSuccessfulTargetStateReadings := 1\<rparr>)) =
      targetDriveState (demoMaxon\<lparr>numberOfSuccessfulTargetStateReadings := 1\<rparr>)
    \<and> minNumberOfSuccessfulTargetStateReadings
         (configuration (demoMaxon\<lparr>numberOfSuccessfulTargetStateReadings := 1\<rparr>))
       \<le> numberOfSuccessfulTargetStateReadings
            (demoMaxon\<lparr>numberOfSuccessfulTargetStateReadings := 1\<rparr>) + 1)
   \<and> stateChangeSuccessful (engagePdoStateMachine 0 0
         (demoMaxon\<lparr>numberOfSuccessfulTargetStateReadings := 1\<rparr>))
   \<and> (getDriveState (reading demoMaxon) = targetDriveState demoMaxon
      \<and> numberOfSuccessfulTargetStateReadings demoMaxon + 1
           < minNumberOfSuccessfulTargetStateReadings (configuration demoMaxon))
   \<and> numberOfSuccessfulTargetStateReadings (engagePdoStateMachine 0 0 demoMaxon) = 1
   \<and> \<not> stateChangeSuccessful (engagePdoStateMachine 0 0 demoMaxon)
   \<and> getDriveState (reading (demoMaxon\<lparr>targetDriveState := SwitchedOn\<rparr>)) \<noteq>
       targetDriveState (demoMaxon\<lparr>targetDriveState := SwitchedOn\<rparr>)
   \<and> numberOfSuccessfulTargetStateReadings
         (engagePdoStateMachine 0 0 (demoMaxon\<lparr>targetDriveState := SwitchedOn\<rparr>)) = 0
   \<and> (numberOfSuccessfulTargetStateReadings demoMaxon = 0
      \<and> rearms [UpdateRead (demoTxPdo OperationEnabled), UpdateWrite 1 1,
           UpdateRead (demoTxPdo SwitchedOn), UpdateWrite 2 2,
           UpdateRead (demoTxPdo OperationEnabled), UpdateWrite 3 3] = 0
      \<and> stateChangeSuccessful (run rawPassthrough [UpdateRead (demoTxPdo OperationEnabled),
           UpdateWrite 1 1, UpdateRead (demoTxPdo SwitchedOn), UpdateWrite 2 2,
           UpdateRead (demoTxPdo OperationEnabled), UpdateWrite 3 3]
           (armStateChange OperationEnabled 0 demoMaxon)))
   \<and> 2 \<le> confirmations (run rawPassthrough [UpdateRead (demoTxPdo OperationEnabled),
           UpdateWrite 1 1, UpdateRead (demoTxPdo SwitchedOn), UpdateWrite 2 2,
           UpdateRead (demoTxPdo OperationEnabled), UpdateWrite 3 3]
           (armStateChange OperationEnabled 0 demoMaxon))"
proof -
  let ?cs = "[UpdateRead (demoTxPdo OperationEnabled), UpdateWrite 1 1,
           UpdateRead (demoTxPdo SwitchedOn), UpdateWrite 2 2,
           UpdateRead (demoTxPdo OperationEnabled), UpdateWrite 3 3]"
  let ?a = "demoMaxon\<lparr>numberOfSuccessfulTargetStateReadings := 1\<rparr>"
  let ?c = "demoMaxon\<lparr>targetDriveState := SwitchedOn\<rparr>"
  have run: "numberOfSuccessfulTargetStateReadings demoMaxon = 0 \<and> rearms ?cs = 0
      \<and> stateChangeSuccessful (run rawPassthrough ?cs (armStateChange OperationEnabled 0 demoMaxon))"
    by (simp add: demo_defs op_defs rearms_def)
  have ha: "getDriveState (reading ?a) = targetDriveState ?a
    \<and> minNumberOfSuccessfulTargetStateReadings (configuration ?a)
       \<le> numberOfSuccessfulTargetStateReadings ?a + 1"
    by (simp add: demoMaxon_def demoConfiguration_def)
  have hb: "getDriveState (reading demoMaxon) = targetDriveState demoMaxon
      \<and> numberOfSuccessfulTargetStateReadings demoMaxon + 1
           < minNumberOfSuccessfulTargetStateReadings (configuration demoMaxon)"
    by (simp add: demoMaxon_def demoConfiguration_def)
  have hc: "getDriveState (reading ?c) \<noteq> targetDriveState ?c"
    by (simp add: demoMaxon_def)
  have d: "numberOfSuccessfulTargetStateReadings demoMaxon = 0"
    "numberOfSuccessfulTargetStateReadings ?c = 0"
    "minNumberOfSuccessfulTargetStateReadings (configuration demoMaxon) = 2"
    "\<not> stateChangeSuccessful demoMaxon" "confirmations demoMaxon = 0"
    by (simp_all add: demoMaxon_def demoConfiguration_def confirmations_def)
  from confirmation_counter[of ?a 0 0 "[]" rawPassthrough OperationEnabled 0, THEN conjunct1] ha
  have a: "stateChangeSuccessful (engagePdoStateMachine 0 0 ?a)" by blast
  from confirmation_counter[of demoMaxon 0 0 ?cs rawPassthrough OperationEnabled 0,
         THEN conjunct2, THEN conjunct1] hb
  have b: "numberOfSuccessfulTargetStateReadings (engagePdoStateMachine 0 0 demoMaxon) =
             numberOfSuccessfulTargetStateReadings demoMaxon + 1"
          "stateChangeSuccessful (engagePdoStateMachine 0 0 demoMaxon) =
             stateChangeSuccessful demoMaxon"
    by blast+
  from confirmation_counter[of ?c 0 0 "[]" rawPassthrough OperationEnabled 0,
         THEN conjunct2, THEN conjunct2, THEN conjunct1] hc
  have c: "numberOfSuccessfulTargetStateReadings (engagePdoStateMachine 0 0 ?c) =
             numberOfSuccessfulTargetStateReadings ?c"
    by blast
  from confirmation_counter[of demoMaxon 0 0 ?cs rawPassthrough OperationEnabled 0,
         THEN conjunct2, THEN conjunct2, THEN conjunct2] run
  have "confirmations demoMaxon
          + minNumberOfSuccessfulTargetStateReadings (configuration demoMaxon)
        \<le> confirmations (run rawPassthrough ?cs (armStateChange OperationEnabled 0 demoMaxon))"
    by blast
  then have t: "2 \<le> confirmations (run rawPassthrough ?cs
                       (armStateChange OperationEnabled 0 demoMaxon))"
    by (simp add: d)
  from b have b': "numberOfSuccessfulTargetStateReadings (engagePdoStateMachine 0 0 demoMaxon) = 1"
    "\<not> stateChangeSuccessful (engagePdoStateMachine 0 0 demoMaxon)"
    by (simp_all add: d)
  from c have c': "numberOfSuccessfulTargetStateReadings (engagePdoStateMachine 0 0 ?c) = 0"
    by (simp only: d)
  from ha a hb b' hc c' run t show ?thesis by blast
qed

text \<open>
  The claim C1 as stated fails on "consecutive": with a configured minimum of two, the reads
  OperationEnabled, SwitchedOn, OperationEnabled complete a request for OperationEnabled at
  the third evaluation, which follows a single confirming evaluation in a row.
\<close>

theorem confirmations_not_consecutive:
  "stateChangeSuccessful (run rawPassthrough [SetDriveStateViaPdo OperationEnabled 0,
     UpdateRead (demoTxPdo OperationEnabled), UpdateWrite 1 1,
     UpdateRead (demoTxPdo SwitchedOn), UpdateWrite 2 2,
     UpdateRead (demoTxPdo OperationEnabled), UpdateWrite 3 3] demoMaxon)
   \<and> minNumberOfSuccessfulTargetStateReadings (configuration demoMaxon) = 2
   \<and> logged (run rawPassthrough [SetDriveStateViaPdo OperationEnabled 0,
     UpdateRead (demoTxPdo OperationEnabled), UpdateWrite 1 1,
     UpdateRead (demoTxPdo SwitchedOn), UpdateWrite 2 2,
     UpdateRead (demoTxPdo OperationEnabled), UpdateWrite 3 3] demoMaxon) =
     [CoutPdoStateMachineEngaged, CoutConductStateChange True,
      CoutCurrentDriveState OperationEnabled, CoutCorrectTargetStateReached,
      CoutPdoStateMachineEngaged, CoutConductStateChange True,
      CoutCurrentDriveState SwitchedOn,
      CoutPdoStateMachineEngaged, CoutConductStateChange True,
      CoutCurrentDriveState OperationEnabled, CoutCorrectTargetStateReached]"
  by (simp add: demo_defs op_defs)

text \<open>
  C10, as amended: an evaluation of the lifecycle state machine ends with the fresh-read flag
  cleared or, when it completes the change, with the pending-change flag cleared (the
  fresh-read flag then stays set); updateWrite evaluates the state machine exactly when the
  mode of operation is resolved and both flags are set; no call but updateRead sets the
  fresh-read flag, and arming a new request clears it. Therefore over any sequence of calls
  the evaluations number at most the read cycles, plus one if both flags were set at the
  start; and after an evaluation, at most the read cycles that follow: between two
  evaluations a read cycle completes.
\<close>

theorem evaluation_once_per_read:
  "\<not> (hasRead (engagePdoStateMachine now now' s)
        \<and> conductStateChange (engagePdoStateMachine now now' s))
   \<and> evaluations (updateWrite now now' s) =
       evaluations s
         + (if modeOfOperation s \<noteq> NA \<and> conductStateChange s \<and> hasRead s then 1 else 0)
   \<and> (hasRead (call conv c s) \<and> \<not> isUpdateRead c \<longrightarrow> hasRead s)
   \<and> \<not> hasRead (armStateChange driveState now s)
   \<and> evaluations (run conv cs s) \<le>
       evaluations s + (if hasRead s \<and> conductStateChange s then 1 else 0) + readCycles cs
   \<and> evaluations (run conv cs (engagePdoStateMachine now now' s)) \<le>
       evaluations (engagePdoStateMachine now now' s) + readCycles cs"
proof -
  obtain c0 h0 r0 n0 m0 e0 k0 where l0: "lifecycle s = (c0, h0, r0, n0, m0, e0, k0)"
    by (cases "lifecycle s") auto
  note f0 = lifecycle_fields[OF l0]
  obtain c1 h1 r1 n1 m1 e1 k1 where
    l1: "lifecycle (engagePdoStateMachine now now' s) = (c1, h1, r1, n1, m1, e1, k1)"
    by (cases "lifecycle (engagePdoStateMachine now now' s)") auto
  note f1 = lifecycle_fields[OF l1]
  from l1 have e: "\<not> (h1 \<and> c1)" "e1 = evaluations s + 1"
    unfolding lifecycle_engagePdoStateMachine by (auto split: if_splits)
  with f1 have a: "\<not> (hasRead (engagePdoStateMachine now now' s)
        \<and> conductStateChange (engagePdoStateMachine now now' s))"
    "evaluations (engagePdoStateMachine now now' s) = evaluations s + 1"
    by simp_all
  obtain c2 h2 r2 n2 m2 e2 k2 where
    l2: "lifecycle (updateWrite now now' s) = (c2, h2, r2, n2, m2, e2, k2)"
    by (cases "lifecycle (updateWrite now now' s)") auto
  from l2 l1 l0 e(2) f0 have "e2 = e0 + (if modeOfOperation s \<noteq> NA \<and> c0 \<and> h0 then 1 else 0)"
    unfolding lifecycle_updateWrite by (auto split: if_splits)
  with lifecycle_fields[OF l2] f0 have b:
    "evaluations (updateWrite now now' s) =
       evaluations s
         + (if modeOfOperation s \<noteq> NA \<and> conductStateChange s \<and> hasRead s then 1 else 0)"
    by simp
  obtain c3 h3 r3 n3 m3 e3 k3 where
    l3: "lifecycle (call conv c s) = (c3, h3, r3, n3, m3, e3, k3)"
    by (cases "lifecycle (call conv c s)") auto
  from lifecycle_call[OF l0, of conv c] l3 have "h3 \<and> \<not> isUpdateRead c \<longrightarrow> h0"
    by (cases c) (auto split: if_splits)
  with lifecycle_fields[OF l3] f0 have c: "hasRead (call conv c s) \<and> \<not> isUpdateRead c \<longrightarrow> hasRead s"
    by simp
  have d: "\<not> hasRead (armStateChange driveState now s)"
    by (simp add: armStateChange_def)
  have g: "evaluations (run conv cs (engagePdoStateMachine now now' s)) \<le>
       evaluations (engagePdoStateMachine now now' s) + readCycles cs"
    using run_evaluations[of conv cs "engagePdoStateMachine now now' s"] a(1)
    by (simp split: if_splits)
  have f: "evaluations (run conv cs s) \<le>
       evaluations s + (if hasRead s \<and> conductStateChange s then 1 else 0) + readCycles cs"
    using run_evaluations[of conv cs s] by linarith
  from a(1) b c d f g show ?thesis by blast
qed

theorem evaluation_once_per_read_witness:
  "(hasRead (call rawPassthrough (UpdateWrite 0 0) (updateRead (demoTxPdo SwitchedOn) demoMaxon))
      \<and> \<not> isUpdateRead (UpdateWrite 0 0))
   \<and> hasRead (updateRead (demoTxPdo SwitchedOn) demoMaxon)
   \<and> evaluations (run rawPassthrough
        [SetDriveStateViaPdo SwitchedOn 0, UpdateRead (demoTxPdo ReadyToSwitchOn),
         UpdateWrite 1 1, UpdateWrite 2 2, UpdateWrite 3 3] demoMaxon) \<le> 1"
proof -
  let ?s = "updateRead (demoTxPdo SwitchedOn) demoMaxon"
  let ?cs = "[SetDriveStateViaPdo SwitchedOn 0, UpdateRead (demoTxPdo ReadyToSwitchOn),
         UpdateWrite 1 1, UpdateWrite 2 2, UpdateWrite 3 3]"
  have h: "hasRead (call rawPassthrough (UpdateWrite 0 0) ?s) \<and> \<not> isUpdateRead (UpdateWrite 0 0)"
    by (simp add: demo_defs op_defs)
  have d: "evaluations demoMaxon = 0" "\<not> hasRead demoMaxon" "readCycles ?cs = 1"
    by (simp_all add: demoMaxon_def evaluations_def readCycles_def)
  from evaluation_once_per_read[of 0 0 ?s rawPassthrough "UpdateWrite 0 0" SwitchedOn "[]",
         THEN conjunct2, THEN conjunct2, THEN conjunct1] h
  have a: "hasRead ?s" by blast
  from evaluation_once_per_read[of 0 0 demoMaxon rawPassthrough "UpdateWrite 0 0" SwitchedOn ?cs,
         THEN conjunct2, THEN conjunct2, THEN conjunct2, THEN conjunct2, THEN conjunct1]
  have "evaluations (run rawPassthrough ?cs demoMaxon) \<le> 1"
    by (simp add: d)
  with h a show ?thesis by blast
qed

text \<open>
  The claim C10 as stated fails on its first part: the evaluation that completes a change
  returns early and leaves the fresh-read flag set.
\<close>

theorem engage_keeps_hasRead_on_completion:
  "hasRead (engagePdoStateMachine 20 20
     (run rawPassthrough [SetDriveStateViaPdo SwitchedOn 0, UpdateRead (demoTxPdo SwitchedOn),
        UpdateWrite 10 10, UpdateRead (demoTxPdo SwitchedOn)] demoMaxon))"
  by (simp add: demo_defs op_defs)

end
